theory Spec2Isabelle
  imports Complex_Main "HOL-Library.Multiset"
begin

section \<open>Python values\<close>

text \<open>
  The analyzer (\<^verbatim>\<open>backend/services/analyzer.py\<close>) works on the JSON-like
  values that the AI providers and the rule engine hand to it: \<^verbatim>\<open>None\<close>,
  booleans, integers, floats, strings, lists and dictionaries with string keys.
  A dictionary is an association list in insertion order. Python floats are
  idealised as reals: rounding, infinities and NaN are not represented; the one
  float exception the analyzer can meet, the \<^verbatim>\<open>OverflowError\<close> of converting
  an integer beyond the double range, is a branch of the model.
\<close>

datatype pyval =
    PNone
  | PBool bool
  | PInt int
  | PFloat real
  | PStr string
  | PList "pyval list"
  | PDict "(string \<times> pyval) list"

type_synonym pydict = "(string \<times> pyval) list"

datatype py_error =
    AttributeError
  | TypeError
  | OverflowError
  | ValueError
  | ValidationError
  | ProviderError

text \<open>\<^verbatim>\<open>d.get(k)\<close>, \<^verbatim>\<open>d.get(k, default)\<close>, \<^verbatim>\<open>k in d\<close> and \<^verbatim>\<open>d[k] = v\<close>.\<close>

definition dict_get :: "pydict \<Rightarrow> string \<Rightarrow> pyval" where
  "dict_get d k = (case map_of d k of None \<Rightarrow> PNone | Some v \<Rightarrow> v)"

definition dict_get_default :: "pydict \<Rightarrow> string \<Rightarrow> pyval \<Rightarrow> pyval" where
  "dict_get_default d k dflt = (case map_of d k of None \<Rightarrow> dflt | Some v \<Rightarrow> v)"

definition dict_has :: "pydict \<Rightarrow> string \<Rightarrow> bool" where
  "dict_has d k = (map_of d k \<noteq> None)"

fun dict_set :: "pydict \<Rightarrow> string \<Rightarrow> pyval \<Rightarrow> pydict" where
  "dict_set [] k v = [(k, v)]"
| "dict_set ((k', v') # d) k v =
     (if k' = k then (k, v) # d else (k', v') # dict_set d k v)"

text \<open>\<^verbatim>\<open>x.get(k, default)\<close> on an arbitrary value: only a dictionary has \<^verbatim>\<open>get\<close>.\<close>

definition val_get_default :: "pyval \<Rightarrow> string \<Rightarrow> pyval \<Rightarrow> py_error + pyval" where
  "val_get_default x k dflt =
     (case x of PDict d \<Rightarrow> Inr (dict_get_default d k dflt) | _ \<Rightarrow> Inl AttributeError)"

definition val_get :: "pyval \<Rightarrow> string \<Rightarrow> py_error + pyval" where
  "val_get x k = val_get_default x k PNone"

text \<open>Truthiness, as \<^verbatim>\<open>if x\<close>, \<^verbatim>\<open>x or y\<close> and \<^verbatim>\<open>not x\<close> test it.\<close>

fun truthy :: "pyval \<Rightarrow> bool" where
  "truthy PNone = False"
| "truthy (PBool b) = b"
| "truthy (PInt n) = (n \<noteq> 0)"
| "truthy (PFloat r) = (r \<noteq> 0)"
| "truthy (PStr s) = (s \<noteq> [])"
| "truthy (PList xs) = (xs \<noteq> [])"
| "truthy (PDict d) = (d \<noteq> [])"

definition py_or :: "pyval \<Rightarrow> pyval \<Rightarrow> pyval" where
  "py_or a b = (if truthy a then a else b)"

text \<open>
  \<^verbatim>\<open>str.lower()\<close>. The analyzer compares the result with ASCII words only, none
  of which contains the one ASCII letter that a non-ASCII character lowers to
  (\<^verbatim>\<open>k\<close>, from the Kelvin sign), so lowering the ASCII capitals is all that
  these comparisons can see.
\<close>

definition lower_char :: "char \<Rightarrow> char" where
  "lower_char c =
     (let n = (of_char c :: nat) in if 65 \<le> n \<and> n \<le> 90 then char_of (n + 32) else c)"

definition py_lower :: "string \<Rightarrow> string" where
  "py_lower s = map lower_char s"

text \<open>\<^verbatim>\<open>x.lower()\<close> on an arbitrary value: only a string has \<^verbatim>\<open>lower\<close>.\<close>

definition val_lower :: "pyval \<Rightarrow> py_error + string" where
  "val_lower x = (case x of PStr s \<Rightarrow> Inr (py_lower s) | _ \<Rightarrow> Inl AttributeError)"

section \<open>Severity normalization\<close>

text \<open>\<^verbatim>\<open>_normalize_severity\<close> (analyzer.py, lines 667-678).\<close>

definition normalize_severity :: "string \<Rightarrow> string" where
  "normalize_severity severity =
     (let severity_lower = py_lower severity in
      if severity_lower \<in> set [''low'', ''medium'', ''high'', ''critical''] then severity_lower
      else if severity_lower \<in> set [''info'', ''minor''] then ''low''
      else if severity_lower \<in> set [''major'', ''severe''] then ''high''
      else ''medium'')"

text \<open>\<^verbatim>\<open>_normalize_timeline_severity\<close> (analyzer.py, lines 681-692).\<close>

definition normalize_timeline_severity :: "string \<Rightarrow> string" where
  "normalize_timeline_severity severity =
     (let severity_lower = py_lower severity in
      if severity_lower \<in> set [''info'', ''low'', ''medium'', ''high''] then severity_lower
      else if severity_lower \<in> set [''warning'', ''warn''] then ''medium''
      else if severity_lower \<in> set [''critical'', ''error''] then ''high''
      else ''info'')"

text \<open>
  The two normalizers on an arbitrary value: \<^verbatim>\<open>severity.lower()\<close> needs a
  string.
\<close>

definition normalize_severity_val :: "pyval \<Rightarrow> py_error + string" where
  "normalize_severity_val v =
     (case v of PStr s \<Rightarrow> Inr (normalize_severity s) | _ \<Rightarrow> Inl AttributeError)"

definition normalize_timeline_severity_val :: "pyval \<Rightarrow> py_error + string" where
  "normalize_timeline_severity_val v =
     (case v of PStr s \<Rightarrow> Inr (normalize_timeline_severity s) | _ \<Rightarrow> Inl AttributeError)"

section \<open>Exceptions as values\<close>

text \<open>
  A computation that may raise returns \<open>Inl\<close> of the exception. \<open>py_bind\<close>
  sequences two such computations; \<open>sequence_err\<close> runs a list of them from left
  to right and stops at the first exception, as a \<^verbatim>\<open>for\<close> loop or a generator
  expression whose body raises does.
\<close>

definition py_bind :: "py_error + 'a \<Rightarrow> ('a \<Rightarrow> py_error + 'b) \<Rightarrow> py_error + 'b" where
  "py_bind m f = (case m of Inl e \<Rightarrow> Inl e | Inr x \<Rightarrow> f x)"

fun sequence_err :: "(py_error + 'a) list \<Rightarrow> py_error + 'a list" where
  "sequence_err [] = Inr []"
| "sequence_err (m # ms) =
     (case m of
        Inl e \<Rightarrow> Inl e
      | Inr x \<Rightarrow> (case sequence_err ms of Inl e \<Rightarrow> Inl e | Inr xs \<Rightarrow> Inr (x # xs)))"

text \<open>
  Converting an \<^verbatim>\<open>int\<close> to a \<^verbatim>\<open>float\<close> (explicitly, or in mixed arithmetic)
  raises \<^verbatim>\<open>OverflowError\<close> when the integer rounds beyond the largest double.
\<close>

definition float_of_int :: "int \<Rightarrow> py_error + real" where
  "float_of_int n =
     (if \<bar>n\<bar> \<ge> 2 ^ 1024 - 2 ^ 970 then Inl OverflowError else Inr (of_int n))"

section \<open>Drift score\<close>

text \<open>\<^verbatim>\<open>issue.get("severity", "").lower()\<close>.\<close>

definition severity_lower :: "pyval \<Rightarrow> py_error + string" where
  "severity_lower issue = py_bind (val_get_default issue ''severity'' (PStr [])) val_lower"

text \<open>
  \<^verbatim>\<open>sum(1 for issue in issues if issue.get("severity", "").lower() == sev)\<close>.
\<close>

definition count_severity :: "pyval list \<Rightarrow> string \<Rightarrow> py_error + nat" where
  "count_severity issues sev =
     py_bind (sequence_err (map severity_lower issues))
       (\<lambda>sevs. Inr (length (filter (\<lambda>s. s = sev) sevs)))"

text \<open>\<^verbatim>\<open>severity_weights.get(severity, 0.4)\<close>.\<close>

definition severity_weights :: "string \<Rightarrow> real" where
  "severity_weights severity =
     (if severity = ''critical'' then 1.0
      else if severity = ''high'' then 0.7
      else if severity = ''medium'' then 0.4
      else if severity = ''low'' then 0.2
      else 0.4)"

text \<open>
  \<^verbatim>\<open>total_weight += weight\<close>: a float plus a number; any other operand is a
  \<^verbatim>\<open>TypeError\<close>.
\<close>

definition number_value :: "pyval \<Rightarrow> py_error + real" where
  "number_value w =
     (case w of
        PFloat r \<Rightarrow> Inr r
      | PInt n \<Rightarrow> float_of_int n
      | PBool b \<Rightarrow> Inr (if b then 1 else 0)
      | _ \<Rightarrow> Inl TypeError)"

text \<open>The body of the weight loop of \<^verbatim>\<open>_calculate_drift_score\<close> (lines 736-743).\<close>

definition issue_weight :: "pyval \<Rightarrow> py_error + real" where
  "issue_weight issue =
     py_bind (val_get issue ''oumi_score'')
       (\<lambda>oumi_score.
          if oumi_score \<noteq> PNone then number_value oumi_score
          else py_bind (py_bind (val_get_default issue ''severity'' (PStr ''medium'')) val_lower)
                 (\<lambda>severity. Inr (severity_weights severity)))"

text \<open>
  \<^verbatim>\<open>x ** 0.7\<close> on a float: a negative base gives a complex number, and the
  \<^verbatim>\<open>min(..., 1.0)\<close> around it then raises \<^verbatim>\<open>TypeError\<close>.
\<close>

definition curve :: "real \<Rightarrow> py_error + real" where
  "curve raw_score =
     (if raw_score < 0 then Inl TypeError else Inr (min (raw_score powr 0.7) 1.0))"

text \<open>\<^verbatim>\<open>round(x, 2)\<close>: to the nearest hundredth, a tie to the even one.\<close>

definition round_half_even :: "real \<Rightarrow> int" where
  "round_half_even y =
     (let f = \<lfloor>y\<rfloor>; d = y - of_int f in
      if d < 1 / 2 then f else if d > 1 / 2 then f + 1 else if even f then f else f + 1)"

definition py_round2 :: "real \<Rightarrow> real" where
  "py_round2 x = of_int (round_half_even (x * 100)) / 100"

text \<open>\<^verbatim>\<open>_calculate_drift_score\<close> (analyzer.py, lines 695-758).\<close>

definition calculate_drift_score :: "pyval list \<Rightarrow> py_error + real" where
  "calculate_drift_score issues =
     (if issues = [] then Inr 0.0
      else
        py_bind (count_severity issues ''critical'') (\<lambda>critical_count.
        py_bind (count_severity issues ''high'') (\<lambda>high_count.
        py_bind (count_severity issues ''medium'') (\<lambda>medium_count.
        py_bind (count_severity issues ''low'') (\<lambda>low_count.
          if critical_count > 3 then
            (let score = 0.9 + real (min (critical_count - 3) 7) * 0.01 in
             Inr (min score 1.0))
          else
            py_bind (sequence_err (map issue_weight issues)) (\<lambda>weights.
              let total_weight = sum_list weights;
                  max_expected_weight = 10.0;
                  raw_score = min (total_weight / max_expected_weight) 1.0
              in py_bind (curve raw_score) (\<lambda>drift_score.
                   let drift_score =
                         (if medium_count \<ge> 5 \<and> critical_count = 0 \<and> high_count = 0
                          then max 0.4 (min 0.6 drift_score) else drift_score)
                   in Inr (py_round2 drift_score))))))))"

section \<open>Scoring stage\<close>

text \<open>
  The severity table of the \<^verbatim>\<open>except\<close> branch of \<^verbatim>\<open>_add_oumi_scores\<close>:
  \<^verbatim>\<open>severity_scores.get(severity, 0.5)\<close>.
\<close>

definition severity_scores :: "string \<Rightarrow> real" where
  "severity_scores severity =
     (if severity = ''low'' then 0.25
      else if severity = ''medium'' then 0.5
      else if severity = ''high'' then 0.75
      else if severity = ''critical'' then 0.95
      else 0.5)"

text \<open>
  The body of the loop of \<^verbatim>\<open>_add_oumi_scores\<close> (lines 575-586). The scorer
  \<^verbatim>\<open>score_issue_with_oumi\<close> is a collaborator: it returns a float or raises.
  Storing the score in anything but a dictionary raises inside the \<^verbatim>\<open>try\<close>.
  The \<^verbatim>\<open>except\<close> branch reads the title (for its log line) and the severity of
  the issue, and whatever these raise leaves the function. The source updates
  the dictionary in place and returns the same objects in a new list; the model
  returns the updated dictionaries.
\<close>

definition score_issue :: "(pyval \<Rightarrow> py_error + real) \<Rightarrow> pyval \<Rightarrow> py_error + pyval" where
  "score_issue scorer issue =
     (case py_bind (scorer issue)
             (\<lambda>oumi_score.
                case issue of
                  PDict d \<Rightarrow> Inr (PDict (dict_set d ''oumi_score'' (PFloat oumi_score)))
                | _ \<Rightarrow> Inl TypeError) of
        Inr scored \<Rightarrow> Inr scored
      | Inl e \<Rightarrow>
          py_bind (val_get_default issue ''title'' (PStr ''unknown'')) (\<lambda>title.
          py_bind (py_bind (val_get_default issue ''severity'' (PStr ''medium'')) val_lower)
            (\<lambda>severity.
               case issue of
                 PDict d \<Rightarrow>
                   Inr (PDict (dict_set d ''oumi_score'' (PFloat (severity_scores severity))))
               | _ \<Rightarrow> Inl TypeError)))"

text \<open>\<^verbatim>\<open>_add_oumi_scores\<close> (analyzer.py, lines 556-588).\<close>

definition add_oumi_scores ::
  "(pyval \<Rightarrow> py_error + real) \<Rightarrow> pyval list \<Rightarrow> py_error + pyval list" where
  "add_oumi_scores scorer issues =
     (if issues = [] then Inr [] else sequence_err (map (score_issue scorer) issues))"

section \<open>Timeline synthesis\<close>

text \<open>
  A dictionary lookup \<^verbatim>\<open>table.get(key, default)\<close> hashes its key: a list or a
  dictionary as key raises \<^verbatim>\<open>TypeError\<close>; any other key that is not one of the
  table's strings gives the default.
\<close>

definition table_get :: "(string \<times> 'a) list \<Rightarrow> pyval \<Rightarrow> 'a \<Rightarrow> py_error + 'a" where
  "table_get table key dflt =
     (case key of
        PList _ \<Rightarrow> Inl TypeError
      | PDict _ \<Rightarrow> Inl TypeError
      | PStr s \<Rightarrow> Inr (case map_of table s of None \<Rightarrow> dflt | Some v \<Rightarrow> v)
      | _ \<Rightarrow> Inr dflt)"

definition severity_order :: "(string \<times> int) list" where
  "severity_order = [(''critical'', 4), (''high'', 3), (''medium'', 2), (''low'', 1)]"

definition days_per_severity :: "(string \<times> int) list" where
  "days_per_severity = [(''critical'', 2), (''high'', 5), (''medium'', 10), (''low'', 15)]"

text \<open>\<^verbatim>\<open>_map_severity_to_timeline\<close> (analyzer.py, lines 651-664).\<close>

definition map_severity_to_timeline :: "pyval \<Rightarrow> py_error + string" where
  "map_severity_to_timeline severity =
     table_get [(''low'', ''low''), (''medium'', ''medium''), (''high'', ''high''),
                (''critical'', ''high'')] severity ''medium''"

text \<open>
  The sort key \<^verbatim>\<open>lambda x: severity_order.get(x.get("severity", "medium"), 2)\<close>.
\<close>

definition severity_key :: "pyval \<Rightarrow> py_error + int" where
  "severity_key x =
     py_bind (val_get_default x ''severity'' (PStr ''medium''))
       (\<lambda>severity. table_get severity_order severity 2)"

text \<open>
  \<^verbatim>\<open>sorted(issues, key=..., reverse=True)\<close>: the keys are computed first, one per
  element from left to right; the sort is stable, and with \<^verbatim>\<open>reverse=True\<close>
  elements of equal key still keep their original order. \<open>sort_key\<close> is the
  stable insertion sort, here on the negated keys.
\<close>

definition sorted_by_severity :: "pyval list \<Rightarrow> py_error + pyval list" where
  "sorted_by_severity issues =
     py_bind (sequence_err (map severity_key issues))
       (\<lambda>keys. Inr (map snd (sort_key (\<lambda>p. - fst p) (zip keys issues))))"

text \<open>
  An f-string field \<^verbatim>\<open>{v}\<close>: a string is inserted as it is; for any other value
  Python's \<^verbatim>\<open>str\<close> is a parameter \<open>str_of\<close> of the model.
\<close>

definition format_value :: "(pyval \<Rightarrow> string) \<Rightarrow> pyval \<Rightarrow> string" where
  "format_value str_of v = (case v of PStr s \<Rightarrow> s | _ \<Rightarrow> str_of v)"

text \<open>
  The loop of \<^verbatim>\<open>_generate_timeline_skeleton\<close> (lines 633-646), from the running
  \<^verbatim>\<open>current_day\<close>.
\<close>

fun timeline_loop :: "(pyval \<Rightarrow> string) \<Rightarrow> int \<Rightarrow> pyval list \<Rightarrow> py_error + pyval list" where
  "timeline_loop str_of current_day [] = Inr []"
| "timeline_loop str_of current_day (issue # rest) =
     (case val_get_default issue ''severity'' (PStr ''medium'') of
        Inl e \<Rightarrow> Inl e
      | Inr severity \<Rightarrow>
     (case table_get days_per_severity severity 10 of
        Inl e \<Rightarrow> Inl e
      | Inr day_offset \<Rightarrow>
     (case val_get_default issue ''title'' (PStr ''Configuration issue'') of
        Inl e \<Rightarrow> Inl e
      | Inr issue_title \<Rightarrow>
     (case val_get_default issue ''resource'' (PStr ''resource'') of
        Inl e \<Rightarrow> Inl e
      | Inr resource \<Rightarrow>
     (case map_severity_to_timeline severity of
        Inl e \<Rightarrow> Inl e
      | Inr timeline_severity \<Rightarrow>
     (case timeline_loop str_of (current_day + day_offset) rest of
        Inl e \<Rightarrow> Inl e
      | Inr events \<Rightarrow>
          Inr (PDict [(''day'', PInt (current_day + day_offset)),
                      (''event'', PStr (format_value str_of issue_title @ '' detected in ''
                                        @ format_value str_of resource)),
                      (''severity'', PStr timeline_severity)] # events)))))))"

text \<open>\<^verbatim>\<open>_generate_timeline_skeleton\<close> (analyzer.py, lines 591-648).\<close>

definition generate_timeline_skeleton ::
  "(pyval \<Rightarrow> string) \<Rightarrow> pyval list \<Rightarrow> py_error + pyval list" where
  "generate_timeline_skeleton str_of issues =
     (if issues = [] then
        Inr [PDict [(''day'', PInt 0),
                    (''event'', PStr ''Infrastructure deployment completed successfully with no issues detected.''),
                    (''severity'', PStr ''info'')]]
      else
        py_bind (sorted_by_severity issues) (\<lambda>sorted_issues.
        py_bind (timeline_loop str_of 0 (take 5 sorted_issues)) (\<lambda>events.
          Inr (PDict [(''day'', PInt 0),
                      (''event'', PStr ''Initial infrastructure deployment detected''),
                      (''severity'', PStr ''info'')] # events))))"

section \<open>AI analysis and validation of its result\<close>

text \<open>
  An AI client, as \<^verbatim>\<open>_analyze_with_ai\<close> uses it: whether it has the method
  \<^verbatim>\<open>analyze_infrastructure\<close>, and what a call of that method returns or raises.
\<close>

record ai_client =
  has_analyze_infrastructure :: bool
  analyze_infrastructure :: "string \<Rightarrow> string \<Rightarrow> py_error + pyval"

text \<open>\<^verbatim>\<open>isinstance(x, list)\<close> and \<^verbatim>\<open>isinstance(x, (int, float))\<close>; a bool is an int.\<close>

definition is_list :: "pyval \<Rightarrow> bool" where
  "is_list x = (case x of PList xs \<Rightarrow> True | _ \<Rightarrow> False)"

definition is_number :: "pyval \<Rightarrow> bool" where
  "is_number x = (case x of PInt n \<Rightarrow> True | PFloat r \<Rightarrow> True | PBool b \<Rightarrow> True | _ \<Rightarrow> False)"

text \<open>The value of a number; comparing an int with a float is exact.\<close>

definition number_real :: "pyval \<Rightarrow> real" where
  "number_real x =
     (case x of PInt n \<Rightarrow> of_int n | PFloat r \<Rightarrow> r | PBool b \<Rightarrow> (if b then 1 else 0) | _ \<Rightarrow> 0)"

text \<open>
  The normalization of a numeric score, written three times in the source
  (analyzer.py, lines 396-398 and 142-144):
  \<^verbatim>\<open>if score > 1.0: score = min(score / 100.0, 1.0)\<close>, then
  \<^verbatim>\<open>max(0.0, min(1.0, float(score)))\<close>. Dividing an int by a float and
  \<^verbatim>\<open>float\<close> of an int convert the int first.
\<close>

definition normalize_score :: "pyval \<Rightarrow> py_error + real" where
  "normalize_score score =
     py_bind (if number_real score > 1.0
              then py_bind (number_value score) (\<lambda>f. Inr (PFloat (min (f / 100.0) 1.0)))
              else Inr score)
       (\<lambda>scaled. py_bind (number_value scaled) (\<lambda>f. Inr (max 0.0 (min 1.0 f))))"

text \<open>
  The validation of a non-empty dictionary (analyzer.py, lines 380-404): first
  the issues and the timeline are made lists (lines 380-390), then the drift
  score is normalized (lines 392-402).
\<close>

definition ensure_lists :: "pydict \<Rightarrow> pydict" where
  "ensure_lists result =
     (let result = (if dict_has result ''issues'' then result
                    else dict_set result ''issues'' (PList []));
          result = (if is_list (dict_get result ''issues'') then result
                    else dict_set result ''issues'' (PList []));
          result = (if dict_has result ''timeline'' then result
                    else dict_set result ''timeline'' (PList []))
      in if is_list (dict_get result ''timeline'') then result
         else dict_set result ''timeline'' (PList []))"

definition validate_ai_result :: "pydict \<Rightarrow> py_error + pydict" where
  "validate_ai_result d =
     (let result = ensure_lists d in
      if dict_has result ''drift_score'' then
        (let score = dict_get result ''drift_score'' in
         if is_number score then
           py_bind (normalize_score score)
             (\<lambda>s. Inr (dict_set result ''drift_score'' (PFloat s)))
         else Inr (dict_set result ''drift_score'' (PFloat 0.0)))
      else Inr (dict_set result ''drift_score'' (PFloat 0.0)))"

text \<open>
  What \<^verbatim>\<open>_analyze_with_ai\<close> does with the value the client returned (lines
  379-408): \<^verbatim>\<open>if result and isinstance(result, dict)\<close> validates and returns
  the dictionary; anything else, the empty dictionary included, falls through
  to \<^verbatim>\<open>return None\<close>.
\<close>

definition validate_reply :: "pyval \<Rightarrow> py_error + pydict option" where
  "validate_reply result =
     (case result of
        PDict d \<Rightarrow>
          (if d \<noteq> [] then py_bind (validate_ai_result d) (\<lambda>r. Inr (Some r)) else Inr None)
      | _ \<Rightarrow> Inr None)"

text \<open>
  \<^verbatim>\<open>_analyze_with_ai\<close> (analyzer.py, lines 344-414). \<open>env_client\<close> is what
  \<^verbatim>\<open>_get_ai_client()\<close> returns in the environment of the call. Every exception
  of the call and of the validation is caught and gives \<^verbatim>\<open>None\<close>.
\<close>

definition analyze_with_ai ::
  "ai_client option \<Rightarrow> string \<Rightarrow> string \<Rightarrow> ai_client option \<Rightarrow> pydict option" where
  "analyze_with_ai env_client content file_type client =
     (case (case client of None \<Rightarrow> env_client | Some c \<Rightarrow> Some c) of
        None \<Rightarrow> None
      | Some c \<Rightarrow>
          (case (if has_analyze_infrastructure c
                 then py_bind (analyze_infrastructure c content file_type) validate_reply
                 else Inr None) of
             Inl e \<Rightarrow> None
           | Inr r \<Rightarrow> r))"

section \<open>Rule engine fallback\<close>

text \<open>
  The pydantic library validates a field by its declared type. A value of that
  type is taken as it is. What the library does with a value of another type
  (whether a numeric string or an integral float becomes an int, an int a
  float or a string) depends on its version and mode, which the repository
  does not fix: these conversions are parameters.
\<close>

record conversions =
  conv_int :: "pyval \<Rightarrow> py_error + int"
  conv_str :: "pyval \<Rightarrow> py_error + string"
  conv_float :: "pyval \<Rightarrow> py_error + real"

text \<open>
  The collaborators of \<^verbatim>\<open>analyze_content\<close>: the provider selection
  \<^verbatim>\<open>_get_provider_and_model\<close> (provider name, model name, client) and
  \<^verbatim>\<open>_get_ai_client\<close>, both read from the environment; the two rule engines;
  the scorer \<^verbatim>\<open>score_issue_with_oumi\<close>; Python's \<^verbatim>\<open>str\<close> on values that
  are not strings; and the conversions of pydantic.
\<close>

record collaborators =
  get_provider_and_model :: "string option \<Rightarrow> string \<times> string option \<times> ai_client option"
  get_ai_client :: "ai_client option"
  analyze_terraform :: "string \<Rightarrow> pyval list"
  analyze_kubernetes :: "string \<Rightarrow> pyval list"
  score_issue_with_oumi :: "pyval \<Rightarrow> py_error + real"
  py_str :: "pyval \<Rightarrow> string"
  pydantic :: conversions

text \<open>\<^verbatim>\<open>_run_rule_engine\<close> (analyzer.py, lines 508-527).\<close>

definition run_rule_engine :: "collaborators \<Rightarrow> string \<Rightarrow> string \<Rightarrow> pyval list" where
  "run_rule_engine c content file_type =
     (if file_type = ''terraform'' then analyze_terraform c content
      else if file_type = ''kubernetes'' then analyze_kubernetes c content
      else [])"

text \<open>The format \<^verbatim>\<open>{idx:03d}\<close>: decimal digits, padded with zeros to three.\<close>

fun decimal :: "nat \<Rightarrow> string" where
  "decimal n =
     (if n < 10 then [char_of (48 + n)] else decimal (n div 10) @ [char_of (48 + n mod 10)])"

definition pad3 :: "nat \<Rightarrow> string" where
  "pad3 n = replicate (3 - length (decimal n)) (CHR ''0'') @ decimal n"

text \<open>\<^verbatim>\<open>enumerate(xs, 1)\<close>.\<close>

definition enumerate1 :: "'a list \<Rightarrow> (nat \<times> 'a) list" where
  "enumerate1 xs = zip [1..<Suc (length xs)] xs"

text \<open>The body of the loop of \<^verbatim>\<open>_format_rule_engine_issues\<close> (lines 544-552).\<close>

definition format_rule_engine_issue :: "nat \<times> pyval \<Rightarrow> py_error + pyval" where
  "format_rule_engine_issue p =
     (case p of (idx, issue) \<Rightarrow>
        py_bind (val_get issue ''rule_id'') (\<lambda>rule_id.
        py_bind (val_get_default issue ''title'' (PStr ''Configuration Issue'')) (\<lambda>title.
        py_bind (val_get_default issue ''description'' (PStr [])) (\<lambda>description.
        py_bind (val_get_default issue ''severity'' (PStr ''medium'')) (\<lambda>severity.
        py_bind (val_get_default issue ''resource'' (PStr ''unknown'')) (\<lambda>resource.
          Inr (PDict [(''id'', py_or rule_id (PStr (''rule-'' @ pad3 idx))),
                      (''title'', title),
                      (''description'', description),
                      (''severity'', severity),
                      (''resource'', resource),
                      (''fix_suggestion'',
                         PStr ''Review and fix the configuration issue.'')])))))))"

text \<open>\<^verbatim>\<open>_format_rule_engine_issues\<close> (analyzer.py, lines 530-553).\<close>

definition format_rule_engine_issues :: "pyval list \<Rightarrow> py_error + pyval list" where
  "format_rule_engine_issues raw_issues =
     sequence_err (map format_rule_engine_issue (enumerate1 raw_issues))"

text \<open>
  The three statements that both fallback branches of \<^verbatim>\<open>analyze_content\<close>
  run (lines 148-150 and 163-165): the formatted issues and their timeline.
\<close>

definition rule_engine_fallback ::
  "collaborators \<Rightarrow> string \<Rightarrow> string \<Rightarrow> py_error + (pyval list \<times> pyval list)" where
  "rule_engine_fallback c content file_type =
     (let raw_issues = run_rule_engine c content file_type in
      py_bind (format_rule_engine_issues raw_issues) (\<lambda>formatted.
      py_bind (generate_timeline_skeleton (py_str c) formatted) (\<lambda>skeleton.
        Inr (formatted, skeleton))))"

section \<open>Response models\<close>

text \<open>
  The pydantic models of \<^verbatim>\<open>backend/models.py\<close>. Constructing one validates
  each field: a value of the declared type is taken as it is, any other value
  goes through the library's conversion; then the declared bounds are checked.
  A failed conversion or bound raises a validation error.
\<close>

record timeline_event =
  ev_day :: int
  ev_event :: string
  ev_severity :: string

record issue_model =
  issue_id :: string
  issue_title :: string
  issue_description :: string
  issue_severity :: string
  issue_resource :: string
  issue_fix_suggestion :: string
  issue_oumi_score :: "real option"

record analyze_response =
  resp_drift_score :: real
  resp_timeline :: "timeline_event list"
  resp_issues :: "issue_model list"
  resp_provider :: "string option"
  resp_model :: "string option"

definition validate_str :: "conversions \<Rightarrow> pyval \<Rightarrow> py_error + string" where
  "validate_str conv v = (case v of PStr s \<Rightarrow> Inr s | _ \<Rightarrow> conv_str conv v)"

definition validate_literal :: "string list \<Rightarrow> string \<Rightarrow> py_error + string" where
  "validate_literal allowed s = (if s \<in> set allowed then Inr s else Inl ValidationError)"

text \<open>\<^verbatim>\<open>day: int = Field(..., ge=0)\<close>.\<close>

definition validate_day :: "conversions \<Rightarrow> pyval \<Rightarrow> py_error + int" where
  "validate_day conv v =
     py_bind (case v of PInt n \<Rightarrow> Inr n | _ \<Rightarrow> conv_int conv v)
       (\<lambda>n. if 0 \<le> n then Inr n else Inl ValidationError)"

text \<open>\<^verbatim>\<open>oumi_score: Optional[float] = Field(default=None, ge=0.0, le=1.0)\<close>.\<close>

definition validate_oumi_score :: "conversions \<Rightarrow> pyval \<Rightarrow> py_error + real option" where
  "validate_oumi_score conv v =
     (case v of
        PNone \<Rightarrow> Inr None
      | _ \<Rightarrow>
          py_bind (case v of PFloat r \<Rightarrow> Inr r | _ \<Rightarrow> conv_float conv v)
            (\<lambda>r. if 0 \<le> r \<and> r \<le> 1 then Inr (Some r) else Inl ValidationError))"

text \<open>One element of the list comprehension of lines 190-197.\<close>

definition make_timeline_event :: "conversions \<Rightarrow> pyval \<Rightarrow> py_error + timeline_event" where
  "make_timeline_event conv event =
     py_bind (val_get_default event ''day'' (PInt 0)) (\<lambda>day.
     py_bind (val_get_default event ''event'' (PStr [])) (\<lambda>text.
     py_bind (val_get_default event ''severity'' (PStr ''info'')) (\<lambda>raw_severity.
     py_bind (normalize_timeline_severity_val raw_severity) (\<lambda>severity.
     py_bind (validate_day conv day) (\<lambda>d.
     py_bind (validate_str conv text) (\<lambda>t.
     py_bind (validate_literal [''info'', ''low'', ''medium'', ''high''] severity) (\<lambda>sev.
       Inr \<lparr>ev_day = d, ev_event = t, ev_severity = sev\<rparr>)))))))"

text \<open>The body of the loop of lines 200-220.\<close>

definition make_issue :: "conversions \<Rightarrow> nat \<times> pyval \<Rightarrow> py_error + issue_model" where
  "make_issue conv p =
     (case p of (idx, issue) \<Rightarrow>
        py_bind (val_get issue ''id'') (\<lambda>raw_id.
        py_bind (val_get issue ''title'') (\<lambda>raw_title.
        py_bind (val_get issue ''description'') (\<lambda>raw_description.
        py_bind (val_get_default issue ''explanation'' (PStr [])) (\<lambda>explanation.
        py_bind (val_get issue ''severity'') (\<lambda>raw_severity.
        py_bind (val_get_default issue ''final_severity'' (PStr ''medium'')) (\<lambda>final_severity.
        py_bind (normalize_severity_val (py_or raw_severity final_severity)) (\<lambda>severity.
        py_bind (val_get issue ''resource'') (\<lambda>raw_resource.
        py_bind (val_get issue ''fix_suggestion'') (\<lambda>raw_fix.
        py_bind (val_get issue ''oumi_score'') (\<lambda>oumi_score.
        py_bind (validate_str conv (py_or raw_id (PStr (''issue-'' @ pad3 idx)))) (\<lambda>i.
        py_bind (validate_str conv (py_or raw_title (PStr ''Infrastructure Issue''))) (\<lambda>t.
        py_bind (validate_str conv (py_or raw_description explanation)) (\<lambda>d.
        py_bind (validate_literal [''low'', ''medium'', ''high'', ''critical''] severity) (\<lambda>sev.
        py_bind (validate_str conv (py_or raw_resource (PStr ''unknown''))) (\<lambda>r.
        py_bind (validate_str conv
                   (py_or raw_fix (PStr ''Review and fix the configuration issue.''))) (\<lambda>f.
        py_bind (validate_oumi_score conv oumi_score) (\<lambda>s.
          Inr \<lparr>issue_id = i, issue_title = t, issue_description = d, issue_severity = sev,
               issue_resource = r, issue_fix_suggestion = f,
               issue_oumi_score = s\<rparr>))))))))))))))))))"

section \<open>The orchestrator\<close>

text \<open>
  \<^verbatim>\<open>float(x)\<close> on the drift score. The score is a float here: the AI score
  was normalized by \<^verbatim>\<open>_analyze_with_ai\<close>, the computed one is a float. The
  branch for a string (which Python would parse) is never taken.
\<close>

definition py_float :: "pyval \<Rightarrow> py_error + real" where
  "py_float v = (case v of PStr s \<Rightarrow> Inl ValueError | _ \<Rightarrow> number_value v)"

text \<open>
  Iterating over a value: the issues and the timeline of a validated AI result
  are lists.
\<close>

definition py_iter :: "pyval \<Rightarrow> py_error + pyval list" where
  "py_iter v = (case v of PList xs \<Rightarrow> Inr xs | _ \<Rightarrow> Inl TypeError)"

text \<open>
  What the \<^verbatim>\<open>try\<close> statement of \<^verbatim>\<open>analyze_content\<close> leaves behind: the
  issues, the timeline, the AI drift score (\<^verbatim>\<open>None\<close> on the fallback), the
  provider name and the model name.
\<close>

type_synonym analysis =
  "pyval list \<times> pyval list \<times> pyval option \<times> string \<times> string option"

text \<open>The body of the \<^verbatim>\<open>try\<close> (analyzer.py, lines 132-155).\<close>

definition try_ai ::
  "collaborators \<Rightarrow> string \<Rightarrow> string \<Rightarrow> string \<Rightarrow> string option \<Rightarrow> ai_client option
   \<Rightarrow> py_error + analysis" where
  "try_ai c content file_type provider_name model_name client =
     (let ai_result = analyze_with_ai (get_ai_client c) content file_type client in
      if (case ai_result of None \<Rightarrow> False
          | Some r \<Rightarrow> r \<noteq> [] \<and> truthy (dict_get r ''issues''))
      then
        (case ai_result of
           None \<Rightarrow> Inl TypeError
         | Some r \<Rightarrow>
             py_bind (py_iter (dict_get_default r ''issues'' (PList []))) (\<lambda>ai_issues.
             py_bind (py_iter (dict_get_default r ''timeline'' (PList []))) (\<lambda>ai_timeline.
             py_bind (let ai_drift_score = dict_get_default r ''drift_score'' (PFloat 0.0) in
                      if is_number ai_drift_score
                      then py_bind (normalize_score ai_drift_score) (\<lambda>s. Inr (PFloat s))
                      else Inr ai_drift_score) (\<lambda>ai_drift_score.
               Inr (ai_issues, ai_timeline, Some ai_drift_score, provider_name, model_name)))))
      else
        py_bind (rule_engine_fallback c content file_type) (\<lambda>(formatted, skeleton).
          if provider_name = [] \<or> provider_name = ''rule-engine''
          then Inr (formatted, skeleton, None, ''rule-engine'', None)
          else Inr (formatted, skeleton, None, provider_name, model_name)))"

text \<open>
  The \<^verbatim>\<open>try\<close> statement with its \<^verbatim>\<open>except Exception\<close> handler (lines 131-168):
  the handler runs the rule engine again and forces the provider.
\<close>

definition ai_or_fallback ::
  "collaborators \<Rightarrow> string \<Rightarrow> string \<Rightarrow> string option \<Rightarrow> py_error + analysis" where
  "ai_or_fallback c content file_type requested_model =
     (case get_provider_and_model c requested_model of
        (provider_name, model_name, client) \<Rightarrow>
          (case try_ai c content file_type provider_name model_name client of
             Inr a \<Rightarrow> Inr a
           | Inl e \<Rightarrow>
               py_bind (rule_engine_fallback c content file_type) (\<lambda>(formatted, skeleton).
                 Inr (formatted, skeleton, None, ''rule-engine'', None))))"

text \<open>
  The rest of \<^verbatim>\<open>analyze_content\<close> (lines 170-235), outside the \<^verbatim>\<open>try\<close>:
  scoring, the drift score, the models of the response.
\<close>

definition build_response :: "collaborators \<Rightarrow> analysis \<Rightarrow> py_error + analyze_response" where
  "build_response c a =
     (case a of (found, events, ai_drift_score, provider_name, model_name) \<Rightarrow>
        py_bind (add_oumi_scores (score_issue_with_oumi c) found) (\<lambda>scored.
        py_bind (case ai_drift_score of
                   Some s \<Rightarrow> Inr s
                 | None \<Rightarrow> py_bind (calculate_drift_score scored) (\<lambda>s. Inr (PFloat s)))
          (\<lambda>drift_score.
        py_bind (py_float drift_score) (\<lambda>f.
        py_bind (sequence_err (map (make_timeline_event (pydantic c)) events))
          (\<lambda>timeline_events.
        py_bind (sequence_err (map (make_issue (pydantic c)) (enumerate1 scored)))
          (\<lambda>issues_list.
          let drift_score = max 0.0 (min 1.0 f) in
          if 0 \<le> drift_score \<and> drift_score \<le> 1
          then Inr \<lparr>resp_drift_score = drift_score, resp_timeline = timeline_events,
                    resp_issues = issues_list, resp_provider = Some provider_name,
                    resp_model = model_name\<rparr>
          else Inl ValidationError))))))"

text \<open>\<^verbatim>\<open>analyze_content\<close> (analyzer.py, lines 95-235).\<close>

definition analyze_content ::
  "collaborators \<Rightarrow> string \<Rightarrow> string \<Rightarrow> string option \<Rightarrow> py_error + analyze_response" where
  "analyze_content c content file_type requested_model =
     py_bind (ai_or_fallback c content file_type requested_model) (build_response c)"

section \<open>Well-formed inputs\<close>

text \<open>
  An issue whose \<^verbatim>\<open>oumi_score\<close> is absent, or a non-negative float as the
  scoring stage stores it.
\<close>

definition score_ok :: "pyval \<Rightarrow> bool" where
  "score_ok issue =
     (case issue of
        PDict d \<Rightarrow>
          (case dict_get d ''oumi_score'' of PFloat r \<Rightarrow> 0 \<le> r | PNone \<Rightarrow> True | _ \<Rightarrow> False)
      | _ \<Rightarrow> False)"

text \<open>
  An issue that the timeline synthesis can place: a dictionary whose severity
  can be hashed. \<open>rank\<close> and \<open>day_offset\<close> read the sort key and the day
  increment of such an issue, \<open>event_day\<close> the day of a timeline event.
\<close>

definition timeline_ok :: "pyval \<Rightarrow> bool" where
  "timeline_ok issue =
     (case issue of
        PDict d \<Rightarrow>
          (case dict_get_default d ''severity'' (PStr ''medium'') of
             PList xs \<Rightarrow> False
           | PDict m \<Rightarrow> False
           | _ \<Rightarrow> True)
      | _ \<Rightarrow> False)"

definition rank :: "pyval \<Rightarrow> int" where
  "rank issue = (case severity_key issue of Inr k \<Rightarrow> k | Inl e \<Rightarrow> 2)"

definition day_offset :: "pyval \<Rightarrow> int" where
  "day_offset issue =
     (case py_bind (val_get_default issue ''severity'' (PStr ''medium''))
             (\<lambda>severity. table_get days_per_severity severity 10) of
        Inr n \<Rightarrow> n
      | Inl e \<Rightarrow> 10)"

definition event_day :: "pyval \<Rightarrow> pyval" where
  "event_day ev = (case ev of PDict d \<Rightarrow> dict_get d ''day'' | _ \<Rightarrow> PNone)"

text \<open>
  The text and the timeline severity of the event of such an issue: the
  f-string of line 644 on its title and resource, and
  \<^verbatim>\<open>_map_severity_to_timeline\<close> on its severity.
\<close>

definition event_text :: "(pyval \<Rightarrow> string) \<Rightarrow> pyval \<Rightarrow> string" where
  "event_text str_of issue =
     (case py_bind (val_get_default issue ''title'' (PStr ''Configuration issue'')) (\<lambda>issue_title.
           py_bind (val_get_default issue ''resource'' (PStr ''resource'')) (\<lambda>resource.
             Inr (format_value str_of issue_title @ '' detected in ''
                  @ format_value str_of resource))) of
        Inr s \<Rightarrow> s
      | Inl e \<Rightarrow> [])"

definition timeline_severity :: "pyval \<Rightarrow> string" where
  "timeline_severity issue =
     (case py_bind (val_get_default issue ''severity'' (PStr ''medium''))
             map_severity_to_timeline of
        Inr s \<Rightarrow> s
      | Inl e \<Rightarrow> ''medium'')"

text \<open>
  An issue that the scoring stage can score: a dictionary, and when the scorer
  raises for it, one whose severity is absent or a string.
\<close>

definition scorable :: "(pyval \<Rightarrow> py_error + real) \<Rightarrow> pyval \<Rightarrow> bool" where
  "scorable scorer issue =
     (case issue of
        PDict d \<Rightarrow>
          (case scorer issue of
             Inr s \<Rightarrow> True
           | Inl e \<Rightarrow>
               (case dict_get_default d ''severity'' (PStr ''medium'') of
                  PStr sev \<Rightarrow> True
                | _ \<Rightarrow> False))
      | _ \<Rightarrow> False)"

text \<open>
  What the scoring stage promises for one issue: the same dictionary, entries
  in the same order, but for the \<^verbatim>\<open>oumi_score\<close> entry, which holds the
  scorer's float, or the table's when the scorer raised.
\<close>

definition scored_as :: "(pyval \<Rightarrow> py_error + real) \<Rightarrow> pyval \<Rightarrow> pyval \<Rightarrow> bool" where
  "scored_as scorer issue scored =
     (\<exists>d d' x. issue = PDict d \<and> scored = PDict d'
        \<and> filter (\<lambda>kv. fst kv \<noteq> ''oumi_score'') d' = filter (\<lambda>kv. fst kv \<noteq> ''oumi_score'') d
        \<and> map_of d' ''oumi_score'' = Some (PFloat x)
        \<and> (\<forall>s. scorer issue = Inr s \<longrightarrow> x = s)
        \<and> (\<forall>e. scorer issue = Inl e \<longrightarrow>
              (\<exists>sev. dict_get_default d ''severity'' (PStr ''medium'') = PStr sev
                 \<and> x = severity_scores (py_lower sev))))"

text \<open>
  A drift score that \<^verbatim>\<open>float\<close> can convert: any value but an integer beyond
  the double range.
\<close>

definition in_double_range :: "pyval \<Rightarrow> bool" where
  "in_double_range v = (case v of PInt n \<Rightarrow> \<bar>n\<bar> < 2 ^ 1024 - 2 ^ 970 | _ \<Rightarrow> True)"

text \<open>
  The normalization of a score in the words of the specification: a score above
  1 is divided by 100 and capped at 1; the result is clamped into \<open>[0, 1]\<close>.
\<close>

definition scaled_and_clamped :: "real \<Rightarrow> real" where
  "scaled_and_clamped s = max 0 (min 1 (if s > 1 then min (s / 100) 1 else s))"

section \<open>Sample collaborators\<close>

text \<open>
  A scorer that needs a title: 0.8 for an issue with a string title, an
  exception for any other.
\<close>

definition title_scorer :: "pyval \<Rightarrow> py_error + real" where
  "title_scorer issue =
     (case val_get issue ''title'' of Inr (PStr t) \<Rightarrow> Inr 0.8 | _ \<Rightarrow> Inl ValueError)"

text \<open>A client whose call returns a given reply, and one whose call raises.\<close>

definition reply_client :: "pyval \<Rightarrow> ai_client" where
  "reply_client reply =
     \<lparr>has_analyze_infrastructure = True,
      analyze_infrastructure = (\<lambda>content file_type. Inr reply)\<rparr>"

definition failing_client :: ai_client where
  "failing_client =
     \<lparr>has_analyze_infrastructure = True,
      analyze_infrastructure = (\<lambda>content file_type. Inl ProviderError)\<rparr>"

text \<open>
  The scorer that analyzer.py itself defines when the trainer cannot be
  imported (lines 88-92): the severity table, on the lowered severity.
\<close>

definition table_scorer :: "pyval \<Rightarrow> py_error + real" where
  "table_scorer issue_data =
     py_bind (py_bind (val_get_default issue_data ''severity'' (PStr ''medium'')) val_lower)
       (\<lambda>severity. Inr (severity_scores severity))"

text \<open>
  Collaborators for a given provider choice, a given output of the rule engines
  and given conversions of pydantic, with no client in the environment and the
  table scorer.
\<close>

definition sample_collaborators ::
  "string \<times> string option \<times> ai_client option \<Rightarrow> pyval list \<Rightarrow> conversions
   \<Rightarrow> collaborators" where
  "sample_collaborators choice raw_issues conv =
     \<lparr>get_provider_and_model = (\<lambda>requested_model. choice),
      get_ai_client = None,
      analyze_terraform = (\<lambda>content. raw_issues),
      analyze_kubernetes = (\<lambda>content. raw_issues),
      score_issue_with_oumi = table_scorer,
      py_str = (\<lambda>v. []),
      pydantic = conv\<rparr>"

section \<open>Basic facts\<close>

lemma py_bind_Inr [simp]: "py_bind (Inr x) f = f x"
  by (simp add: py_bind_def)

lemma py_bind_Inl [simp]: "py_bind (Inl e) f = Inl e"
  by (simp add: py_bind_def)

lemma dict_get_default_PNone [simp]: "dict_get_default d k PNone = dict_get d k"
  by (simp add: dict_get_default_def dict_get_def)

lemma py_bind_eq_Inr: "py_bind m f = Inr y \<longleftrightarrow> (\<exists>x. m = Inr x \<and> f x = Inr y)"
  by (cases m) simp_all

lemma sequence_err_Cons_Inr:
  "sequence_err (m # ms) = Inr ys \<longleftrightarrow> (\<exists>x xs. m = Inr x \<and> sequence_err ms = Inr xs \<and> ys = x # xs)"
  by (auto split: sum.splits)

lemma sequence_err_length: "sequence_err ms = Inr xs \<Longrightarrow> length xs = length ms"
  by (induction ms arbitrary: xs) (auto split: sum.splits)

lemma count_severity_defined:
  "count_severity issues sev = Inr n \<Longrightarrow> \<exists>m. count_severity issues sev' = Inr m"
  by (auto simp add: count_severity_def py_bind_def split: sum.splits)

lemmas eval_defs =
  py_bind_def val_get_def val_get_default_def dict_get_def dict_get_default_def dict_has_def
  val_lower_def py_lower_def lower_char_def char_of_eq_iff py_or_def
  severity_lower_def count_severity_def

section \<open>Properties of severity normalization\<close>








section \<open>Properties of the drift score\<close>

lemma round_half_even_between:
  assumes "of_int a \<le> y" and "y \<le> of_int b"
  shows "a \<le> round_half_even y \<and> round_half_even y \<le> b"
proof -
  have lo: "a \<le> \<lfloor>y\<rfloor>" using assms(1) by (simp add: le_floor_iff)
  have hi: "\<lfloor>y\<rfloor> \<le> b" using assms(2) by (simp add: floor_le_iff)
  show ?thesis
  proof (cases "\<lfloor>y\<rfloor> = b")
    case True
    then have "y - of_int \<lfloor>y\<rfloor> \<le> 0" using assms(2) by simp
    then have "y - of_int \<lfloor>y\<rfloor> < 1 / 2" by linarith
    then show ?thesis using True lo by (simp add: round_half_even_def Let_def)
  next
    case False
    then have "\<lfloor>y\<rfloor> + 1 \<le> b" using hi by linarith
    then show ?thesis using lo by (auto simp add: round_half_even_def Let_def)
  qed
qed

lemma py_round2_band:
  assumes "0.4 \<le> x" and "x \<le> 0.6"
  shows "0.4 \<le> py_round2 x \<and> py_round2 x \<le> 0.6"
proof -
  have "of_int 40 \<le> x * 100" "x * 100 \<le> of_int 60" using assms by simp_all
  then have "40 \<le> round_half_even (x * 100) \<and> round_half_even (x * 100) \<le> 60"
    by (rule round_half_even_between)
  then have "(40::real) \<le> of_int (round_half_even (x * 100)) \<and> of_int (round_half_even (x * 100)) \<le> (60::real)"
    by linarith
  then show ?thesis by (simp add: py_round2_def)
qed

lemma py_round2_unit:
  assumes "0 \<le> x" and "x \<le> 1"
  shows "0 \<le> py_round2 x \<and> py_round2 x \<le> 1"
proof -
  have "of_int 0 \<le> x * 100" "x * 100 \<le> of_int 100" using assms by simp_all
  then have "0 \<le> round_half_even (x * 100) \<and> round_half_even (x * 100) \<le> 100"
    by (rule round_half_even_between)
  then have "(0::real) \<le> of_int (round_half_even (x * 100))
      \<and> of_int (round_half_even (x * 100)) \<le> (100::real)"
    by linarith
  then show ?thesis by (simp add: py_round2_def)
qed

lemma curve_unit: "curve x = Inr p \<Longrightarrow> 0 \<le> p \<and> p \<le> 1"
  by (auto simp add: curve_def split: if_splits)

lemma calculate_drift_score_unit:
  assumes "calculate_drift_score found = Inr s"
  shows "0 \<le> s \<and> s \<le> 1"
proof (cases "found = []")
  case True
  then show ?thesis using assms by (simp add: calculate_drift_score_def)
next
  case False
  from assms False have
    "py_bind (count_severity  found ''critical'') (\<lambda>critical_count.
     py_bind (count_severity found ''high'') (\<lambda>high_count.
     py_bind (count_severity found ''medium'') (\<lambda>medium_count.
     py_bind (count_severity found ''low'') (\<lambda>low_count.
       if critical_count > 3
       then Inr (min (0.9 + real (min (critical_count - 3) 7) * 0.01) 1.0)
       else py_bind (sequence_err (map issue_weight found)) (\<lambda>weights.
              py_bind (curve (min (sum_list weights / 10.0) 1.0)) (\<lambda>drift_score.
                Inr (py_round2 (if medium_count \<ge> 5 \<and> critical_count = 0 \<and> high_count = 0
                          then max 0.4 (min 0.6 drift_score) else drift_score)))))))) = Inr s"
    unfolding calculate_drift_score_def Let_def by simp
  then obtain cc :: nat and hc :: nat and mc :: nat where
    rest: "(if cc > 3 then Inr (min (0.9 + real (min (cc - 3) 7) * 0.01) 1.0)
       else py_bind (sequence_err (map issue_weight found)) (\<lambda>weights.
              py_bind (curve (min (sum_list weights / 10.0) 1.0)) (\<lambda>drift_score.
                Inr (py_round2 (if mc \<ge> 5 \<and> cc = 0 \<and> hc = 0
                          then max 0.4 (min 0.6 drift_score) else drift_score))))) = Inr s"
    unfolding py_bind_eq_Inr by blast
  show ?thesis
  proof (cases "cc > 3")
    case True
    then have "s = min (0.9 + real (min (cc - 3) 7) * 0.01) 1.0" using rest by simp
    then show ?thesis by simp
  next
    case False
    then obtain ws p where p: "curve (min (sum_list ws / 10.0) 1.0) = Inr p"
      and s: "s = py_round2 (if mc \<ge> 5 \<and> cc = 0 \<and> hc = 0 then max 0.4 (min 0.6 p) else p)"
      using rest by (auto simp add: py_bind_eq_Inr)
    have "0 \<le> p \<and> p \<le> 1" using p by (rule curve_unit)
    then have "0 \<le> (if mc \<ge> 5 \<and> cc = 0 \<and> hc = 0 then max 0.4 (min 0.6 p) else p)"
      "(if mc \<ge> 5 \<and> cc = 0 \<and> hc = 0 then max 0.4 (min 0.6 p) else p) \<le> 1"
      by auto
    then show ?thesis unfolding s by (rule py_round2_unit)
  qed
qed

lemma issue_weight_nonneg:
  assumes "score_ok issue" and "severity_lower issue = Inr s"
  shows "\<exists>w. issue_weight issue = Inr w \<and> 0 \<le> w"
proof -
  obtain d where d: "issue = PDict d"
    using assms(1) by (auto simp add: score_ok_def split: pyval.splits)
  show ?thesis
  proof (cases "dict_get d ''oumi_score'' = PNone")
    case True
    have "\<exists>t. val_lower (dict_get_default d ''severity'' (PStr ''medium'')) = Inr t"
      using assms(2) d
      by (auto simp add: severity_lower_def val_get_default_def dict_get_default_def val_lower_def
          split: option.splits pyval.splits)
    then show ?thesis using True d
      by (auto simp add: issue_weight_def val_get_def val_get_default_def
          severity_weights_def)
  next
    case False
    then obtain r where "dict_get d ''oumi_score'' = PFloat r" "0 \<le> r"
      using assms(1) d by (auto simp add: score_ok_def split: pyval.splits)
    then show ?thesis using d
      by (simp add: issue_weight_def val_get_def val_get_default_def number_value_def)
  qed
qed

lemma weights_nonneg:
  "list_all score_ok issues \<Longrightarrow> sequence_err (map severity_lower issues) = Inr sevs \<Longrightarrow>
   \<exists>ws. sequence_err (map issue_weight issues) = Inr ws \<and> 0 \<le> sum_list ws"
proof (induction issues arbitrary: sevs)
  case Nil
  then show ?case by simp
next
  case (Cons issue issues)
  from Cons.prems(2) obtain s ss where s: "severity_lower issue = Inr s"
    and ss: "sequence_err (map severity_lower issues) = Inr ss"
    unfolding list.map sequence_err_Cons_Inr by blast
  from Cons.prems(1) have ok: "score_ok issue" and oks: "list_all score_ok issues" by simp_all
  obtain w where w: "issue_weight issue = Inr w" "0 \<le> w"
    using issue_weight_nonneg [OF ok s] by blast
  obtain ws where ws: "sequence_err (map issue_weight issues) = Inr ws" "0 \<le> sum_list ws"
    using Cons.IH [OF oks ss] by blast
  show ?case using w ws by simp
qed

lemma curve_defined: "0 \<le> x \<Longrightarrow> \<exists>p. curve x = Inr p"
  by (simp add: curve_def)

lemma calculate_drift_score_critical:
  assumes "count_severity issues ''critical'' = Inr c" and "c > 3"
  shows "calculate_drift_score issues = Inr (min (0.9 + 0.01 * real (min (c - 3) 7)) 1.0)"
proof -
  obtain h where h: "count_severity issues ''high'' = Inr h"
    using count_severity_defined [OF assms(1)] by blast
  obtain m where m: "count_severity issues ''medium'' = Inr m"
    using count_severity_defined [OF assms(1)] by blast
  obtain l where l: "count_severity issues ''low'' = Inr l"
    using count_severity_defined [OF assms(1)] by blast
  have ne: "issues \<noteq> []"
    using assms by (auto simp add: count_severity_def)
  show ?thesis
    using assms h m l ne by (simp add: calculate_drift_score_def Let_def mult.commute)
qed

text \<open>
  Claim C5. When more than three issues are of critical severity, the fallback
  drift score is \<open>min (0.9 + 0.01 * min (criticalCount - 3) 7) 1.0\<close>, returned
  at once: no score or weight of any issue is read, so the result is the same
  whatever the \<^verbatim>\<open>oumi_score\<close> fields hold. With exactly four critical issues
  the score is between 0.91 and 1.0. The count is defined when every issue is a
  dictionary with a string severity, as the issues formatted from the rule
  engine are.
\<close>

theorem critical_dominance:
  assumes "count_severity issues ''critical'' = Inr c" and "c > 3"
  shows "calculate_drift_score issues = Inr (min (0.9 + 0.01 * real (min (c - 3) 7)) 1.0)
         \<and> (c = 4 \<longrightarrow>
              (\<exists>s. calculate_drift_score issues = Inr s \<and> 0.91 \<le> s \<and> s \<le> 1.0))"
proof -
  have eq: "calculate_drift_score issues = Inr (min (0.9 + 0.01 * real (min (c - 3) 7)) 1.0)"
    by (rule calculate_drift_score_critical [OF assms])
  have "c = 4 \<longrightarrow> calculate_drift_score issues = Inr 0.91"
    using eq by auto
  then have "c = 4 \<longrightarrow> (\<exists>s. calculate_drift_score issues = Inr s \<and> 0.91 \<le> s \<and> s \<le> 1.0)"
    by (intro impI exI [of _ "0.91"]) simp
  then show ?thesis using eq by blast
qed

theorem critical_dominance_witness:
  "count_severity
     [PDict [(''severity'', PStr ''critical'')], PDict [(''severity'', PStr ''critical'')],
      PDict [(''severity'', PStr ''Critical''), (''oumi_score'', PStr ''n/a'')],
      PDict [(''severity'', PStr ''critical'')]] ''critical'' = Inr 4
   \<and> calculate_drift_score
     [PDict [(''severity'', PStr ''critical'')], PDict [(''severity'', PStr ''critical'')],
      PDict [(''severity'', PStr ''Critical''), (''oumi_score'', PStr ''n/a'')],
      PDict [(''severity'', PStr ''critical'')]] = Inr 0.91"
  using critical_dominance [of
     "[PDict [(''severity'', PStr ''critical'')], PDict [(''severity'', PStr ''critical'')],
      PDict [(''severity'', PStr ''Critical''), (''oumi_score'', PStr ''n/a'')],
      PDict [(''severity'', PStr ''critical'')]]" 4]
  by (simp add: eval_defs)

text \<open>
  Claim C10. When more than three issues are of critical severity, the fallback
  drift score is \<open>0.9 + 0.01 * min (criticalCount - 3) 7\<close> itself, between 0.91
  and 0.97: the cap at 1.0 never binds on this branch and the score 1.0 is not
  reached through it. (In floating point the seven sums are between the doubles
  0.91 and 0.97 as well.)
\<close>

theorem critical_path_cap:
  assumes "count_severity issues ''critical'' = Inr c" and "c > 3"
  shows "\<exists>s. calculate_drift_score issues = Inr s
           \<and> s = 0.9 + 0.01 * real (min (c - 3) 7)
           \<and> 0.91 \<le> s \<and> s \<le> 0.97 \<and> s \<noteq> 1.0"
proof -
  let ?k = "min (c - 3) 7"
  have k: "1 \<le> ?k" "?k \<le> 7" using assms(2) by simp_all
  then have r: "1 \<le> real ?k" "real ?k \<le> 7"
    by (metis of_nat_1 of_nat_le_iff, metis of_nat_le_iff of_nat_numeral)
  have "0.9 + 0.01 * real ?k \<le> 1.0" using r by simp
  then have "calculate_drift_score issues = Inr (0.9 + 0.01 * real ?k)"
    using calculate_drift_score_critical [OF assms] by (simp add: min_def)
  then show ?thesis using r by simp
qed

theorem critical_path_cap_witness:
  "count_severity
     [PDict [(''severity'', PStr ''critical'')], PDict [(''severity'', PStr ''CRITICAL'')],
      PDict [(''severity'', PStr ''critical'')], PDict [(''severity'', PStr ''critical'')],
      PDict [(''severity'', PStr ''critical'')], PDict [(''severity'', PStr ''high'')]]
     ''critical'' = Inr 5
   \<and> calculate_drift_score
     [PDict [(''severity'', PStr ''critical'')], PDict [(''severity'', PStr ''CRITICAL'')],
      PDict [(''severity'', PStr ''critical'')], PDict [(''severity'', PStr ''critical'')],
      PDict [(''severity'', PStr ''critical'')], PDict [(''severity'', PStr ''high'')]]
     = Inr 0.92"
  using critical_path_cap [of
     "[PDict [(''severity'', PStr ''critical'')], PDict [(''severity'', PStr ''CRITICAL'')],
      PDict [(''severity'', PStr ''critical'')], PDict [(''severity'', PStr ''critical'')],
      PDict [(''severity'', PStr ''critical'')], PDict [(''severity'', PStr ''high'')]]" 5]
  by (auto simp add: eval_defs)

text \<open>
  Claim C6. For a list of issues with at least five of medium severity and none
  of critical or high severity, each carrying a non-negative score (or none),
  whatever those scores are and whatever low-severity issues are present,
  \<^verbatim>\<open>_calculate_drift_score\<close> returns a score in \<open>[0.4, 0.6]\<close>. (The scores
  that the scoring stage stores are floats between 0 and 1.)
\<close>

theorem medium_band:
  assumes "count_severity issues ''medium'' = Inr m" and "m \<ge> 5"
    and "count_severity issues ''critical'' = Inr 0"
    and "count_severity issues ''high'' = Inr 0"
    and "list_all score_ok issues"
  shows "\<exists>s. calculate_drift_score issues = Inr s \<and> 0.4 \<le> s \<and> s \<le> 0.6"
proof -
  obtain l where l: "count_severity issues ''low'' = Inr l"
    using count_severity_defined [OF assms(1)] by blast
  have ne: "issues \<noteq> []"
    using assms(1,2) by (auto simp add: count_severity_def)
  obtain sevs where sevs: "sequence_err (map severity_lower issues) = Inr sevs"
    using assms(1) by (auto simp add: count_severity_def py_bind_eq_Inr)
  obtain ws where ws: "sequence_err (map issue_weight issues) = Inr ws" "0 \<le> sum_list ws"
    using weights_nonneg [OF assms(5) sevs] by blast
  have "0 \<le> min (sum_list ws / 10) 1" using ws(2) by simp
  then obtain p where p: "curve (min (sum_list ws / 10) 1) = Inr p"
    using curve_defined by blast
  have calc: "calculate_drift_score issues = Inr (py_round2 (max 0.4 (min 0.6 p)))"
    using assms l ne ws(1) p by (simp add: calculate_drift_score_def Let_def)
  have "0.4 \<le> max 0.4 (min 0.6 p)" "max 0.4 (min 0.6 p) \<le> 0.6" by simp_all
  then have "0.4 \<le> py_round2 (max 0.4 (min 0.6 p)) \<and> py_round2 (max 0.4 (min 0.6 p)) \<le> 0.6"
    by (rule py_round2_band)
  then show ?thesis using calc by simp
qed

theorem medium_band_witness:
  "count_severity
     [PDict [(''severity'', PStr ''medium''), (''oumi_score'', PFloat 0.5)],
      PDict [(''severity'', PStr ''medium''), (''oumi_score'', PFloat 0.5)],
      PDict [(''severity'', PStr ''Medium''), (''oumi_score'', PFloat 1)],
      PDict [(''severity'', PStr ''medium''), (''oumi_score'', PFloat 0)],
      PDict [(''severity'', PStr ''medium'')],
      PDict [(''severity'', PStr ''low''), (''oumi_score'', PFloat 0.25)]] ''medium'' = Inr 5
   \<and> (\<exists>s. calculate_drift_score
     [PDict [(''severity'', PStr ''medium''), (''oumi_score'', PFloat 0.5)],
      PDict [(''severity'', PStr ''medium''), (''oumi_score'', PFloat 0.5)],
      PDict [(''severity'', PStr ''Medium''), (''oumi_score'', PFloat 1)],
      PDict [(''severity'', PStr ''medium''), (''oumi_score'', PFloat 0)],
      PDict [(''severity'', PStr ''medium'')],
      PDict [(''severity'', PStr ''low''), (''oumi_score'', PFloat 0.25)]] = Inr s
        \<and> 0.4 \<le> s \<and> s \<le> 0.6)"
  using medium_band [of
     "[PDict [(''severity'', PStr ''medium''), (''oumi_score'', PFloat 0.5)],
      PDict [(''severity'', PStr ''medium''), (''oumi_score'', PFloat 0.5)],
      PDict [(''severity'', PStr ''Medium''), (''oumi_score'', PFloat 1)],
      PDict [(''severity'', PStr ''medium''), (''oumi_score'', PFloat 0)],
      PDict [(''severity'', PStr ''medium'')],
      PDict [(''severity'', PStr ''low''), (''oumi_score'', PFloat 0.25)]]" 5]
  by (simp add: eval_defs score_ok_def)

section \<open>Properties of the scoring stage\<close>

lemma filter_dict_set:
  "filter (\<lambda>kv. fst kv \<noteq> k) (dict_set d k v) = filter (\<lambda>kv. fst kv \<noteq> k) d"
  by (induction d) auto

lemma map_of_dict_set: "map_of (dict_set d k v) k = Some v"
  by (induction d) auto

lemma map_of_dict_set_other: "k' \<noteq> k \<Longrightarrow> map_of (dict_set d k v) k' = map_of d k'"
  by (induction d) auto

lemma sequence_err_all2:
  "list_all (\<lambda>x. \<exists>y. f x = Inr y \<and> P x y) xs \<Longrightarrow>
   \<exists>ys. sequence_err (map f xs) = Inr ys \<and> list_all2 P xs ys"
proof (induction xs)
  case Nil
  then show ?case by simp
next
  case (Cons x xs)
  then obtain y where y: "f x = Inr y" "P x y" by auto
  from Cons obtain ys where ys: "sequence_err (map f xs) = Inr ys" "list_all2 P xs ys" by auto
  show ?case using y ys by simp
qed

lemma score_issue_scorable:
  assumes "scorable scorer issue"
  shows "\<exists>scored. score_issue scorer issue = Inr scored \<and> scored_as scorer issue scored"
proof -
  obtain d where d: "issue = PDict d"
    using assms by (auto simp add: scorable_def split: pyval.splits)
  show ?thesis
  proof (cases "scorer issue")
    case (Inr s)
    then show ?thesis using d
      by (simp add: score_issue_def scored_as_def filter_dict_set map_of_dict_set)
  next
    case (Inl e)
    then obtain sev where sev: "dict_get_default d ''severity'' (PStr ''medium'') = PStr sev"
      using assms d by (auto simp add: scorable_def split: pyval.splits)
    then show ?thesis using d Inl
      by (simp add: score_issue_def scored_as_def filter_dict_set map_of_dict_set
          val_get_default_def val_lower_def)
  qed
qed

lemma add_oumi_scores_all2:
  assumes "list_all (scorable scorer) issues"
  shows "\<exists>scored. add_oumi_scores scorer issues = Inr scored
           \<and> list_all2 (scored_as scorer) issues scored"
proof (cases "issues = []")
  case True
  then show ?thesis by (simp add: add_oumi_scores_def)
next
  case False
  have "list_all (\<lambda>x. \<exists>y. score_issue scorer x = Inr y \<and> scored_as scorer x y) issues"
    using assms score_issue_scorable by (simp add: list_all_iff)
  then show ?thesis using False sequence_err_all2 [of "score_issue scorer" "scored_as scorer" issues]
    by (simp add: add_oumi_scores_def)
qed

text \<open>
  What the scoring stage does on a list of issue dictionaries in which an issue
  whose scorer call raises has a string severity, or none: it returns a list of
  the same length and in the same order; each element is the input issue,
  entries and their order unchanged, except for its \<^verbatim>\<open>oumi_score\<close>: the float
  the scorer returned for that issue or, when the scorer raised for that issue,
  the table's value for its severity.
\<close>

lemma add_oumi_scores_frame:
  assumes "list_all (scorable scorer) issues"
  shows "\<exists>scored. add_oumi_scores scorer issues = Inr scored
           \<and> length scored = length issues
           \<and> (\<forall>i < length issues. \<exists>d d' x.
                 issues ! i = PDict d \<and> scored ! i = PDict d'
                 \<and> filter (\<lambda>kv. fst kv \<noteq> ''oumi_score'') d'
                     = filter (\<lambda>kv. fst kv \<noteq> ''oumi_score'') d
                 \<and> map_of d' ''oumi_score'' = Some (PFloat x)
                 \<and> (\<forall>s. scorer (issues ! i) = Inr s \<longrightarrow> x = s)
                 \<and> (\<forall>e. scorer (issues ! i) = Inl e \<longrightarrow>
                       (\<exists>sev. dict_get_default d ''severity'' (PStr ''medium'') = PStr sev
                          \<and> x = severity_scores (py_lower sev))))
           \<and> severity_scores ''low'' = 0.25 \<and> severity_scores ''medium'' = 0.5
           \<and> severity_scores ''high'' = 0.75 \<and> severity_scores ''critical'' = 0.95
           \<and> (\<forall>sev. sev \<notin> set [''low'', ''medium'', ''high'', ''critical''] \<longrightarrow>
                 severity_scores sev = 0.5)"
proof -
  obtain scored where s: "add_oumi_scores scorer issues = Inr scored"
    and a: "list_all2 (scored_as scorer) issues scored"
    using add_oumi_scores_all2 [OF assms] by blast
  have len: "length scored = length issues" using a by (simp add: list_all2_lengthD)
  have nth: "\<forall>i < length issues. scored_as scorer (issues ! i) (scored ! i)"
    using a by (simp add: list_all2_conv_all_nth)
  have tab: "severity_scores ''low'' = 0.25 \<and> severity_scores ''medium'' = 0.5
           \<and> severity_scores ''high'' = 0.75 \<and> severity_scores ''critical'' = 0.95
           \<and> (\<forall>sev. sev \<notin> set [''low'', ''medium'', ''high'', ''critical''] \<longrightarrow>
                 severity_scores sev = 0.5)"
    by (simp add: severity_scores_def)
  show ?thesis using s len nth tab unfolding scored_as_def by blast
qed

lemma add_oumi_scores_frame_example:
  "list_all (scorable title_scorer)
     [PDict [(''title'', PStr ''Open port''), (''severity'', PStr ''High'')],
      PDict [(''severity'', PStr ''Critical''), (''resource'', PStr ''sg.web'')],
      PDict [(''resource'', PStr ''vm'')]]
   \<and> add_oumi_scores title_scorer
     [PDict [(''title'', PStr ''Open port''), (''severity'', PStr ''High'')],
      PDict [(''severity'', PStr ''Critical''), (''resource'', PStr ''sg.web'')],
      PDict [(''resource'', PStr ''vm'')]]
     = Inr [PDict [(''title'', PStr ''Open port''), (''severity'', PStr ''High''),
                   (''oumi_score'', PFloat 0.8)],
            PDict [(''severity'', PStr ''Critical''), (''resource'', PStr ''sg.web''),
                   (''oumi_score'', PFloat 0.95)],
            PDict [(''resource'', PStr ''vm''), (''oumi_score'', PFloat 0.5)]]"
  using add_oumi_scores_frame [of title_scorer
     "[PDict [(''title'', PStr ''Open port''), (''severity'', PStr ''High'')],
      PDict [(''severity'', PStr ''Critical''), (''resource'', PStr ''sg.web'')],
      PDict [(''resource'', PStr ''vm'')]]"]
  by (simp add: eval_defs scorable_def title_scorer_def add_oumi_scores_def score_issue_def
      severity_scores_def)

section \<open>Properties of the timeline synthesis\<close>

lemma table_get_hashable:
  "(case key of PList xs \<Rightarrow> False | PDict m \<Rightarrow> False | _ \<Rightarrow> True) \<Longrightarrow>
   \<exists>v. table_get table key dflt = Inr v"
  by (cases key) (simp_all add: table_get_def)

lemma severity_key_ok: "timeline_ok issue \<Longrightarrow> severity_key issue = Inr (rank issue)"
proof -
  assume a: "timeline_ok issue"
  then obtain d where d: "issue = PDict d" by (auto simp add: timeline_ok_def split: pyval.splits)
  have "\<exists>v. table_get severity_order (dict_get_default d ''severity'' (PStr ''medium'')) 2 = Inr v"
    using a d by (intro table_get_hashable) (simp add: timeline_ok_def)
  then have "\<exists>v. severity_key issue = Inr v"
    using d by (simp add: severity_key_def val_get_default_def)
  then show ?thesis by (auto simp add: rank_def)
qed

lemma severity_keys_ok:
  "list_all timeline_ok issues \<Longrightarrow> sequence_err (map severity_key issues) = Inr (map rank issues)"
  by (induction issues) (simp_all add: severity_key_ok)

lemma insort_key_pairs:
  "insort_key (\<lambda>p. - fst p) (f x, x) (map (\<lambda>y. (f y, y)) ys)
   = map (\<lambda>y. (f y, y)) (insort_key (\<lambda>y. - f y) x ys)" for f :: "'a \<Rightarrow> int"
  by (induction ys) auto

lemma sort_key_pairs:
  "sort_key (\<lambda>p. - fst p) (map (\<lambda>y. (f y, y)) xs) = map (\<lambda>y. (f y, y)) (sort_key (\<lambda>y. - f y) xs)"
  for f :: "'a \<Rightarrow> int"
  by (induction xs) (simp_all add: insort_key_pairs)

lemma zip_map_self: "zip (map f xs) xs = map (\<lambda>y. (f y, y)) xs"
  by (induction xs) simp_all

lemma sorted_by_severity_ok:
  assumes "list_all timeline_ok issues"
  shows "sorted_by_severity issues = Inr (sort_key (\<lambda>x. - rank x) issues)"
  using severity_keys_ok [OF assms]
  by (simp add: sorted_by_severity_def zip_map_self sort_key_pairs comp_def)

lemma day_offset_pos: "2 \<le> day_offset issue"
proof (cases issue)
  case (PDict d)
  show ?thesis
  proof (cases "dict_get_default d ''severity'' (PStr ''medium'')")
    case (PStr s)
    then show ?thesis using PDict
      by (simp add: day_offset_def val_get_default_def table_get_def days_per_severity_def)
  qed (simp_all add: PDict day_offset_def val_get_default_def table_get_def)
qed (simp_all add: day_offset_def val_get_default_def)

lemma timeline_loop_events:
  "list_all timeline_ok xs \<Longrightarrow>
   \<exists>events. timeline_loop str_of c xs = Inr events \<and> length events = length xs
     \<and> (\<forall>i < length xs.
           events ! i
             = PDict [(''day'', PInt (c + sum_list (map day_offset (take (Suc i) xs)))),
                      (''event'', PStr (event_text str_of (xs ! i))),
                      (''severity'', PStr (timeline_severity (xs ! i)))])"
proof (induction xs arbitrary: c)
  case Nil
  then show ?case by simp
next
  case (Cons issue rest)
  from Cons.prems have ok: "timeline_ok issue" and oks: "list_all timeline_ok rest" by simp_all
  obtain d where d: "issue = PDict d"
    using ok by (auto simp add: timeline_ok_def split: pyval.splits)
  let ?sev = "dict_get_default d ''severity'' (PStr ''medium'')"
  have h: "case ?sev of PList xs \<Rightarrow> False | PDict m \<Rightarrow> False | _ \<Rightarrow> True"
    using ok d by (simp add: timeline_ok_def)
  obtain off where off: "table_get days_per_severity ?sev 10 = Inr off"
    using table_get_hashable [OF h, where table = days_per_severity and dflt = 10] by blast
  have off_eq: "day_offset issue = off"
    using d off by (simp add: day_offset_def val_get_default_def)
  obtain ts where ts: "map_severity_to_timeline ?sev = Inr ts"
    unfolding map_severity_to_timeline_def
    using table_get_hashable [OF h, where dflt = "''medium''"
        and table = "[(''low'', ''low''), (''medium'', ''medium''), (''high'', ''high''),
                      (''critical'', ''high'')]"]
    by blast
  have ts_eq: "timeline_severity issue = ts"
    using d ts by (simp add: timeline_severity_def val_get_default_def)
  have text_eq: "event_text str_of issue
      = format_value str_of (dict_get_default d ''title'' (PStr ''Configuration issue''))
        @ '' detected in ''
        @ format_value str_of (dict_get_default d ''resource'' (PStr ''resource''))"
    using d by (simp add: event_text_def val_get_default_def)
  obtain events where ev: "timeline_loop str_of (c + off) rest = Inr events"
    and len: "length events = length rest"
    and rest: "\<forall>i < length rest.
           events ! i
             = PDict [(''day'', PInt (c + off + sum_list (map day_offset (take (Suc i) rest)))),
                      (''event'', PStr (event_text str_of (rest ! i))),
                      (''severity'', PStr (timeline_severity (rest ! i)))]"
    using Cons.IH [OF oks, of "c + off"] by blast
  let ?e = "PDict [(''day'', PInt (c + off)),
                   (''event'', PStr (event_text str_of issue)),
                   (''severity'', PStr ts)]"
  have res: "timeline_loop str_of c (issue # rest) = Inr (?e # events)"
    using d off ts ev text_eq by (simp add: val_get_default_def)
  have "\<forall>i < length (issue # rest).
           (?e # events) ! i
             = PDict [(''day'', PInt (c + sum_list (map day_offset (take (Suc i) (issue # rest))))),
                      (''event'', PStr (event_text str_of ((issue # rest) ! i))),
                      (''severity'', PStr (timeline_severity ((issue # rest) ! i)))]"
  proof (intro allI impI)
    fix i assume i: "i < length (issue # rest)"
    show "(?e # events) ! i
             = PDict [(''day'', PInt (c + sum_list (map day_offset (take (Suc i) (issue # rest))))),
                      (''event'', PStr (event_text str_of ((issue # rest) ! i))),
                      (''severity'', PStr (timeline_severity ((issue # rest) ! i)))]"
    proof (cases i)
      case 0
      then show ?thesis using off_eq ts_eq by simp
    next
      case (Suc j)
      then have "j < length rest" using i by simp
      then show ?thesis using rest Suc off_eq by (simp add: add.assoc)
    qed
  qed
  then show ?case using res len by (intro exI [of _ "?e # events"]) simp
qed

lemma stable_sort_unique:
  assumes "mset s = mset issues"
    and "sorted_wrt (\<lambda>a b. rank a \<ge> rank b) s"
    and "\<forall>k. filter (\<lambda>x. rank x = k) s = filter (\<lambda>x. rank x = k) issues"
  shows "s = sort_key (\<lambda>x. - rank x) issues"
proof -
  have st: "\<And>k. k \<in> set s \<Longrightarrow>
      filter (\<lambda>x. - rank k = - rank x) s = filter (\<lambda>x. - rank k = - rank x) issues"
  proof -
    fix k
    have "filter (\<lambda>x. rank x = rank k) s = filter (\<lambda>x. rank x = rank k) issues"
      using assms(3) by blast
    moreover have "(\<lambda>x. - rank k = - rank x) = (\<lambda>x. rank x = rank k)" by auto
    ultimately show "filter (\<lambda>x. - rank k = - rank x) s = filter (\<lambda>x. - rank k = - rank x) issues"
      by simp
  qed
  have "sorted (map (\<lambda>x. - rank x) s)" using assms(2) by (simp add: sorted_map)
  then have "sort_key (\<lambda>x. - rank x) issues = s"
    using assms(1) st by (intro properties_for_sort_key) 
  then show ?thesis by simp
qed

lemma sum_take_nonneg:
  "\<forall>x\<in>set offs. (0::int) < x \<Longrightarrow> 0 \<le> sum_list (take j offs)"
proof (rule sum_list_nonneg)
  fix x assume a: "\<forall>x\<in>set offs. (0::int) < x" and x: "x \<in> set (take j offs)"
  from x have "x \<in> set offs" by (rule in_set_takeD)
  then show "0 \<le> x" using a by fastforce
qed

lemma sum_take_less:
  "\<forall>x\<in>set offs. (0::int) < x \<Longrightarrow> i < j \<Longrightarrow> j \<le> length offs \<Longrightarrow>
   sum_list (take i offs) < sum_list (take j offs)"
proof (induction offs arbitrary: i j)
  case Nil
  then show ?case by simp
next
  case (Cons x xs)
  obtain j' where j: "j = Suc j'" using Cons.prems(2) by (cases j) auto
  show ?case
  proof (cases i)
    case 0
    have "0 \<le> sum_list (take j' xs)" using Cons.prems(1) by (intro sum_take_nonneg) simp
    moreover have "0 < x" using Cons.prems(1) by simp
    ultimately show ?thesis using 0 j by simp
  next
    case (Suc i')
    then have "sum_list (take i' xs) < sum_list (take j' xs)"
      using Cons.prems j by (intro Cons.IH) auto
    then show ?thesis using Suc j by simp
  qed
qed

lemma nth_map_upt_Suc: "i \<le> n \<Longrightarrow> map f [0..<Suc n] ! i = f i"
  using nth_map_upt [of i "Suc n" 0 f] by simp

lemma cumulative_increasing:
  assumes "\<forall>x\<in>set offs. (0::int) < x"
  shows "sorted_wrt (<) (map (\<lambda>i. sum_list (take i offs)) [0..<Suc (length offs)])"
  unfolding sorted_wrt_iff_nth_less
proof (intro allI impI)
  fix i j
  assume ij: "i < j" and j: "j < length (map (\<lambda>i. sum_list (take i offs)) [0..<Suc (length offs)])"
  have jl: "j \<le> length offs" using j by simp
  have a: "map (\<lambda>i. sum_list (take i offs)) [0..<Suc (length offs)] ! i = sum_list (take i offs)"
    using ij jl by (subst nth_map) (simp_all del: upt_Suc)
  have b: "map (\<lambda>i. sum_list (take i offs)) [0..<Suc (length offs)] ! j = sum_list (take j offs)"
    using jl by (subst nth_map) (simp_all del: upt_Suc)
  show "map (\<lambda>i. sum_list (take i offs)) [0..<Suc (length offs)] ! i
        < map (\<lambda>i. sum_list (take i offs)) [0..<Suc (length offs)] ! j"
    unfolding a b using assms ij jl by (rule sum_take_less)
qed

lemma timeline_tables:
  "dict_get_default d ''severity'' (PStr ''medium'') = PStr sev \<Longrightarrow>
   rank (PDict d) = (if sev = ''critical'' then 4 else if sev = ''high'' then 3
                     else if sev = ''medium'' then 2 else if sev = ''low'' then 1 else 2)
   \<and> day_offset (PDict d) = (if sev = ''critical'' then 2 else if sev = ''high'' then 5
                     else if sev = ''medium'' then 10 else if sev = ''low'' then 15 else 10)
   \<and> timeline_severity (PDict d) = (if sev = ''critical'' then ''high''
                     else if sev = ''high'' then ''high''
                     else if sev = ''medium'' then ''medium''
                     else if sev = ''low'' then ''low'' else ''medium'')"
  by (simp add: rank_def day_offset_def timeline_severity_def severity_key_def
      val_get_default_def table_get_def severity_order_def days_per_severity_def
      map_severity_to_timeline_def)

lemma event_text_strings:
  "dict_get_default d ''title'' (PStr ''Configuration issue'') = PStr t \<Longrightarrow>
   dict_get_default d ''resource'' (PStr ''resource'') = PStr r \<Longrightarrow>
   event_text str_of (PDict d) = t @ '' detected in '' @ r"
  by (simp add: event_text_def val_get_default_def format_value_def)

text \<open>
  Claim C7. For an empty issue list the synthesized timeline is one day-0
  informational event. For a non-empty list of issue dictionaries it is a day-0
  event followed by one event for each of the first five issues of the list
  sorted by severity rank, highest first (critical 4, high 3, medium 2, low 1),
  issues of equal rank in their original order. The event of an issue carries
  the text made of its title and resource and its severity as a timeline
  severity (critical as high), and its day is the running sum of the day
  increments (critical 2, high 5, medium 10, low 15) up to and including that
  issue, so the days of the timeline strictly increase from 0. The sorted list
  exists, and whichever list meets its description (a permutation of the
  issues, ranks descending, equal ranks in the original order) gives these
  events.
\<close>

theorem timeline_skeleton:
  assumes "list_all timeline_ok issues"
  shows "(issues = [] \<longrightarrow>
            generate_timeline_skeleton str_of issues =
              Inr [PDict [(''day'', PInt 0),
                          (''event'', PStr ''Infrastructure deployment completed successfully with no issues detected.''),
                          (''severity'', PStr ''info'')]])
       \<and> (issues \<noteq> [] \<longrightarrow>
            (\<exists>events days.
               generate_timeline_skeleton str_of issues =
                 Inr (PDict [(''day'', PInt 0),
                             (''event'', PStr ''Initial infrastructure deployment detected''),
                             (''severity'', PStr ''info'')] # events)
             \<and> length events = min 5 (length issues)
             \<and> (\<exists>sorted_issues.
                   mset sorted_issues = mset issues
                 \<and> sorted_wrt (\<lambda>a b. rank a \<ge> rank b) sorted_issues
                 \<and> (\<forall>k. filter (\<lambda>x. rank x = k) sorted_issues
                           = filter (\<lambda>x. rank x = k) issues))
             \<and> (\<forall>sorted_issues.
                   mset sorted_issues = mset issues
                 \<and> sorted_wrt (\<lambda>a b. rank a \<ge> rank b) sorted_issues
                 \<and> (\<forall>k. filter (\<lambda>x. rank x = k) sorted_issues
                           = filter (\<lambda>x. rank x = k) issues)
                 \<longrightarrow> (\<forall>i < length events.
                        events ! i
                          = PDict [(''day'', PInt (sum_list (map day_offset
                                                     (take (Suc i) sorted_issues)))),
                                   (''event'', PStr (event_text str_of (sorted_issues ! i))),
                                   (''severity'', PStr (timeline_severity (sorted_issues ! i)))]))
             \<and> map event_day (PDict [(''day'', PInt 0),
                             (''event'', PStr ''Initial infrastructure deployment detected''),
                             (''severity'', PStr ''info'')] # events) = map PInt days
             \<and> hd days = 0
             \<and> sorted_wrt (<) days))
       \<and> (\<forall>d. dict_get_default d ''severity'' (PStr ''medium'') = PStr ''critical'' \<longrightarrow>
              rank (PDict d) = 4 \<and> day_offset (PDict d) = 2
              \<and> timeline_severity (PDict d) = ''high'')
       \<and> (\<forall>d. dict_get_default d ''severity'' (PStr ''medium'') = PStr ''high'' \<longrightarrow>
              rank (PDict d) = 3 \<and> day_offset (PDict d) = 5
              \<and> timeline_severity (PDict d) = ''high'')
       \<and> (\<forall>d. dict_get_default d ''severity'' (PStr ''medium'') = PStr ''medium'' \<longrightarrow>
              rank (PDict d) = 2 \<and> day_offset (PDict d) = 10
              \<and> timeline_severity (PDict d) = ''medium'')
       \<and> (\<forall>d. dict_get_default d ''severity'' (PStr ''medium'') = PStr ''low'' \<longrightarrow>
              rank (PDict d) = 1 \<and> day_offset (PDict d) = 15
              \<and> timeline_severity (PDict d) = ''low'')
       \<and> (\<forall>d t r. dict_get_default d ''title'' (PStr ''Configuration issue'') = PStr t
                  \<and> dict_get_default d ''resource'' (PStr ''resource'') = PStr r \<longrightarrow>
              event_text str_of (PDict d) = t @ '' detected in '' @ r)"
proof -
  let ?day0 = "PDict [(''day'', PInt 0),
                      (''event'', PStr ''Initial infrastructure deployment detected''),
                      (''severity'', PStr ''info'')]"
  let ?P = "\<lambda>s. mset s = mset issues
                 \<and> sorted_wrt (\<lambda>a b. rank a \<ge> rank b) s
                 \<and> (\<forall>k. filter (\<lambda>x. rank x = k) s = filter (\<lambda>x. rank x = k) issues)"
  let ?E = "\<lambda>s i. PDict [(''day'', PInt (sum_list (map day_offset (take (Suc i) s)))),
                         (''event'', PStr (event_text str_of (s ! i))),
                         (''severity'', PStr (timeline_severity (s ! i)))]"
  have empty: "issues = [] \<longrightarrow>
            generate_timeline_skeleton str_of issues =
              Inr [PDict [(''day'', PInt 0),
                          (''event'', PStr ''Infrastructure deployment completed successfully with no issues detected.''),
                          (''severity'', PStr ''info'')]]"
    by (simp add: generate_timeline_skeleton_def)
  have tables: "(\<forall>d. dict_get_default d ''severity'' (PStr ''medium'') = PStr ''critical'' \<longrightarrow>
              rank (PDict d) = 4 \<and> day_offset (PDict d) = 2
              \<and> timeline_severity (PDict d) = ''high'')
       \<and> (\<forall>d. dict_get_default d ''severity'' (PStr ''medium'') = PStr ''high'' \<longrightarrow>
              rank (PDict d) = 3 \<and> day_offset (PDict d) = 5
              \<and> timeline_severity (PDict d) = ''high'')
       \<and> (\<forall>d. dict_get_default d ''severity'' (PStr ''medium'') = PStr ''medium'' \<longrightarrow>
              rank (PDict d) = 2 \<and> day_offset (PDict d) = 10
              \<and> timeline_severity (PDict d) = ''medium'')
       \<and> (\<forall>d. dict_get_default d ''severity'' (PStr ''medium'') = PStr ''low'' \<longrightarrow>
              rank (PDict d) = 1 \<and> day_offset (PDict d) = 15
              \<and> timeline_severity (PDict d) = ''low'')"
    using timeline_tables by simp
  have texts: "\<forall>d t r. dict_get_default d ''title'' (PStr ''Configuration issue'') = PStr t
                  \<and> dict_get_default d ''resource'' (PStr ''resource'') = PStr r \<longrightarrow>
              event_text str_of (PDict d) = t @ '' detected in '' @ r"
    using event_text_strings by blast
  have nonempty: "issues \<noteq> [] \<longrightarrow>
            (\<exists>events days.
               generate_timeline_skeleton str_of issues = Inr (?day0 # events)
             \<and> length events = min 5 (length issues)
             \<and> (\<exists>sorted_issues. ?P sorted_issues)
             \<and> (\<forall>sorted_issues. ?P sorted_issues \<longrightarrow>
                   (\<forall>i < length events. events ! i = ?E sorted_issues i))
             \<and> map event_day (?day0 # events) = map PInt days
             \<and> hd days = 0
             \<and> sorted_wrt (<) days)"
  proof
    assume ne: "issues \<noteq> []"
    let ?sorted = "sort_key (\<lambda>x. - rank x) issues"
    let ?top = "take 5 ?sorted"
    let ?offs = "map day_offset ?top"
    let ?days = "map (\<lambda>i. sum_list (take i ?offs)) [0..<Suc (length ?offs)]"
    have srt: "sorted_by_severity issues = Inr ?sorted"
      by (rule sorted_by_severity_ok [OF assms])
    have "list_all timeline_ok ?top"
      using assms by (auto simp add: list_all_iff dest: in_set_takeD)
    then obtain events where ev: "timeline_loop str_of 0 ?top = Inr events"
      and len: "length events = length ?top"
      and evs: "\<forall>i < length ?top. events ! i
             = PDict [(''day'', PInt (0 + sum_list (map day_offset (take (Suc i) ?top)))),
                      (''event'', PStr (event_text str_of (?top ! i))),
                      (''severity'', PStr (timeline_severity (?top ! i)))]"
      using timeline_loop_events [of ?top str_of 0] by blast
    have res: "generate_timeline_skeleton str_of issues = Inr (?day0 # events)"
      using ne srt ev by (simp add: generate_timeline_skeleton_def)
    have "sorted (map (\<lambda>x. - rank x) ?sorted)" by (rule sorted_sort_key)
    then have desc: "sorted_wrt (\<lambda>a b. rank a \<ge> rank b) ?sorted"
      by (simp add: sorted_map)
    have stable: "\<forall>k. filter (\<lambda>x. rank x = k) ?sorted = filter (\<lambda>x. rank x = k) issues"
    proof
      fix k
      have "filter (\<lambda>x. - rank x = - k) ?sorted = filter (\<lambda>x. - rank x = - k) issues"
        by (rule sort_key_stable)
      then show "filter (\<lambda>x. rank x = k) ?sorted = filter (\<lambda>x. rank x = k) issues" by simp
    qed
    have P: "?P ?sorted" using desc stable by simp
    have len5: "length events = min 5 (length issues)" using len by (simp add: min.commute)
    have ev_sorted: "\<forall>i < length events. events ! i = ?E ?sorted i"
    proof (intro allI impI)
      fix i assume i: "i < length events"
      then have i5: "i < 5" and il: "i < length ?top" using len by simp_all
      have "take (Suc i) ?top = take (Suc i) ?sorted" using i5 by (simp add: min_def)
      moreover have "?top ! i = ?sorted ! i" using i5 by simp
      ultimately show "events ! i = ?E ?sorted i" using evs il by simp
    qed
    have all: "\<forall>s. ?P s \<longrightarrow> (\<forall>i < length events. events ! i = ?E s i)"
    proof (intro allI impI)
      fix s i assume s: "?P s" and i: "i < length events"
      have "s = ?sorted" using s by (intro stable_sort_unique) simp_all
      then show "events ! i = ?E s i" using ev_sorted i by simp
    qed
    have days: "\<forall>j < length ?top.
        event_day (events ! j) = PInt (sum_list (map day_offset (take (Suc j) ?top)))"
      using evs by (simp add: event_day_def dict_get_def)
    have map_days: "map event_day (?day0 # events) = map PInt ?days"
    proof (rule nth_equalityI)
      show "length (map event_day (?day0 # events)) = length (map PInt ?days)"
        using len by simp
    next
      fix i assume i: "i < length (map event_day (?day0 # events))"
      then have il: "i \<le> length ?offs" using len by auto
      have "map PInt ?days ! i = PInt (?days ! i)"
        using il by (intro nth_map) (auto simp del: upt_Suc)
      also have "?days ! i = sum_list (take i ?offs)"
        using il by (rule nth_map_upt_Suc)
      finally have r: "map PInt ?days ! i = PInt (sum_list (take i ?offs))" .
      show "map event_day (?day0 # events) ! i = map PInt ?days ! i"
      proof (cases i)
        case 0
        then show ?thesis unfolding r by (simp add: event_day_def dict_get_def)
      next
        case (Suc j)
        then have j: "j < length ?top" using i len by simp
        have "event_day (events ! j) = PInt (sum_list (map day_offset (take (Suc j) ?top)))"
          using days j by simp
        then show ?thesis unfolding r using Suc j len by (simp add: take_map)
      qed
    qed
    have hd0: "hd ?days = 0" by (simp add: upt_rec)
    have "\<forall>x\<in>set ?offs. (0::int) < x"
      using day_offset_pos by (auto intro: less_le_trans [of 0 2])
    then have incr: "sorted_wrt (<) ?days" by (rule cumulative_increasing)
    have ex: "\<exists>sorted_issues. ?P sorted_issues" using P by blast
    show "\<exists>events days.
               generate_timeline_skeleton str_of issues = Inr (?day0 # events)
             \<and> length events = min 5 (length issues)
             \<and> (\<exists>sorted_issues. ?P sorted_issues)
             \<and> (\<forall>sorted_issues. ?P sorted_issues \<longrightarrow>
                   (\<forall>i < length events. events ! i = ?E sorted_issues i))
             \<and> map event_day (?day0 # events) = map PInt days
             \<and> hd days = 0
             \<and> sorted_wrt (<) days"
      using res len5 ex all map_days hd0 incr by blast
  qed
  show ?thesis using empty nonempty tables texts by blast
qed

theorem timeline_skeleton_witness:
  "list_all timeline_ok
     [PDict [(''title'', PStr ''Unused volume''), (''severity'', PStr ''low''),
             (''resource'', PStr ''aws_ebs_volume.l'')],
      PDict [(''title'', PStr ''Missing tags''), (''severity'', PStr ''medium''),
             (''resource'', PStr ''aws_instance.web'')],
      PDict [(''title'', PStr ''Open ingress''), (''severity'', PStr ''critical''),
             (''resource'', PStr ''aws_security_group.sg'')],
      PDict [(''title'', PStr ''No limits''), (''severity'', PStr ''medium''),
             (''resource'', PStr ''deployment.api'')],
      PDict [(''title'', PStr ''Outdated AMI''), (''severity'', PStr ''high''),
             (''resource'', PStr ''aws_instance.db'')],
      PDict [(''title'', PStr ''Stale tag''), (''severity'', PStr ''low''),
             (''resource'', PStr ''aws_instance.m'')]]
   \<and> generate_timeline_skeleton (\<lambda>v. [])
     [PDict [(''title'', PStr ''Unused volume''), (''severity'', PStr ''low''),
             (''resource'', PStr ''aws_ebs_volume.l'')],
      PDict [(''title'', PStr ''Missing tags''), (''severity'', PStr ''medium''),
             (''resource'', PStr ''aws_instance.web'')],
      PDict [(''title'', PStr ''Open ingress''), (''severity'', PStr ''critical''),
             (''resource'', PStr ''aws_security_group.sg'')],
      PDict [(''title'', PStr ''No limits''), (''severity'', PStr ''medium''),
             (''resource'', PStr ''deployment.api'')],
      PDict [(''title'', PStr ''Outdated AMI''), (''severity'', PStr ''high''),
             (''resource'', PStr ''aws_instance.db'')],
      PDict [(''title'', PStr ''Stale tag''), (''severity'', PStr ''low''),
             (''resource'', PStr ''aws_instance.m'')]]
     = Inr [PDict [(''day'', PInt 0),
                   (''event'', PStr ''Initial infrastructure deployment detected''),
                   (''severity'', PStr ''info'')],
            PDict [(''day'', PInt 2),
                   (''event'', PStr ''Open ingress detected in aws_security_group.sg''),
                   (''severity'', PStr ''high'')],
            PDict [(''day'', PInt 7),
                   (''event'', PStr ''Outdated AMI detected in aws_instance.db''),
                   (''severity'', PStr ''high'')],
            PDict [(''day'', PInt 17),
                   (''event'', PStr ''Missing tags detected in aws_instance.web''),
                   (''severity'', PStr ''medium'')],
            PDict [(''day'', PInt 27),
                   (''event'', PStr ''No limits detected in deployment.api''),
                   (''severity'', PStr ''medium'')],
            PDict [(''day'', PInt 42),
                   (''event'', PStr ''Unused volume detected in aws_ebs_volume.l''),
                   (''severity'', PStr ''low'')]]"
  using timeline_skeleton [of
     "[PDict [(''title'', PStr ''Unused volume''), (''severity'', PStr ''low''),
             (''resource'', PStr ''aws_ebs_volume.l'')],
      PDict [(''title'', PStr ''Missing tags''), (''severity'', PStr ''medium''),
             (''resource'', PStr ''aws_instance.web'')],
      PDict [(''title'', PStr ''Open ingress''), (''severity'', PStr ''critical''),
             (''resource'', PStr ''aws_security_group.sg'')],
      PDict [(''title'', PStr ''No limits''), (''severity'', PStr ''medium''),
             (''resource'', PStr ''deployment.api'')],
      PDict [(''title'', PStr ''Outdated AMI''), (''severity'', PStr ''high''),
             (''resource'', PStr ''aws_instance.db'')],
      PDict [(''title'', PStr ''Stale tag''), (''severity'', PStr ''low''),
             (''resource'', PStr ''aws_instance.m'')]]" "\<lambda>v. []"]
  by (simp add: eval_defs timeline_ok_def generate_timeline_skeleton_def sorted_by_severity_def
      severity_key_def table_get_def severity_order_def days_per_severity_def
      map_severity_to_timeline_def format_value_def)

section \<open>Properties of the validation of AI results\<close>

lemma dict_get_dict_set [simp]: "dict_get (dict_set d k v) k = v"
  by (simp add: dict_get_def map_of_dict_set)

lemma dict_get_dict_set_other [simp]: "k' \<noteq> k \<Longrightarrow> dict_get (dict_set d k v) k' = dict_get d k'"
  by (simp add: dict_get_def map_of_dict_set_other)

lemma dict_has_dict_set [simp]: "dict_has (dict_set d k v) k"
  by (simp add: dict_has_def map_of_dict_set)

lemma dict_has_dict_set_other [simp]: "k' \<noteq> k \<Longrightarrow> dict_has (dict_set d k v) k' = dict_has d k'"
  by (simp add: dict_has_def map_of_dict_set_other)

lemma dict_get_missing: "\<not> dict_has d k \<Longrightarrow> dict_get d k = PNone"
  by (simp add: dict_has_def dict_get_def)

lemma scaled_and_clamped_range: "0 \<le> scaled_and_clamped x \<and> scaled_and_clamped x \<le> 1"
  by (simp add: scaled_and_clamped_def)

lemma normalize_score_number:
  assumes "is_number v" and "in_double_range v"
  shows "normalize_score v = Inr (scaled_and_clamped (number_real v))"
proof (cases v)
  case (PInt n)
  then have "float_of_int n = Inr (of_int n)"
    using assms(2) by (simp add: in_double_range_def float_of_int_def)
  then show ?thesis using PInt
    by (simp add: normalize_score_def number_real_def number_value_def scaled_and_clamped_def)
next
  case (PFloat r)
  then show ?thesis
    by (simp add: normalize_score_def number_real_def number_value_def scaled_and_clamped_def)
next
  case (PBool b)
  then show ?thesis
    by (simp add: normalize_score_def number_real_def number_value_def scaled_and_clamped_def)
qed (use assms in \<open>simp_all add: is_number_def\<close>)

lemma ensure_lists_issues:
  "dict_get (ensure_lists d) ''issues'' = (if is_list (dict_get d ''issues'') then dict_get d ''issues'' else PList [])"
  by (auto simp add: ensure_lists_def Let_def is_list_def dict_get_missing)

lemma ensure_lists_timeline:
  "dict_get (ensure_lists d) ''timeline'' = (if is_list (dict_get d ''timeline'') then dict_get d ''timeline'' else PList [])"
  by (auto simp add: ensure_lists_def Let_def is_list_def dict_get_missing)

lemma ensure_lists_other:
  "k \<noteq> ''issues'' \<Longrightarrow> k \<noteq> ''timeline'' \<Longrightarrow> map_of (ensure_lists d) k = map_of d k"
  by (simp add: ensure_lists_def Let_def map_of_dict_set_other)

lemma validate_ai_result_ok:
  assumes "in_double_range (dict_get d ''drift_score'')"
  shows "\<exists>r. validate_ai_result d = Inr r
     \<and> dict_get r ''issues''
         = (if is_list (dict_get d ''issues'') then dict_get d ''issues'' else PList [])
     \<and> dict_get r ''timeline''
         = (if is_list (dict_get d ''timeline'') then dict_get d ''timeline'' else PList [])
     \<and> dict_get r ''drift_score''
         = PFloat (if is_number (dict_get d ''drift_score'')
                   then scaled_and_clamped (number_real (dict_get d ''drift_score'')) else 0)
     \<and> (\<forall>k. k \<notin> set [''issues'', ''timeline'', ''drift_score''] \<longrightarrow> map_of r k = map_of d k)"
proof -
  let ?w = "ensure_lists d"
  let ?score = "dict_get d ''drift_score''"
  let ?s = "if is_number ?score then scaled_and_clamped (number_real ?score) else 0"
  have same: "dict_get ?w ''drift_score'' = ?score"
    by (simp add: dict_get_def ensure_lists_other)
  have has: "dict_has ?w ''drift_score'' = dict_has d ''drift_score''"
    by (simp add: dict_has_def ensure_lists_other)
  have missing: "\<not> dict_has d ''drift_score'' \<Longrightarrow> \<not> is_number ?score"
    by (simp add: dict_get_missing is_number_def)
  have "validate_ai_result d = Inr (dict_set ?w ''drift_score'' (PFloat ?s))"
    using assms missing normalize_score_number [of ?score]
    by (auto simp add: validate_ai_result_def Let_def same has)
  moreover have "dict_get (dict_set ?w ''drift_score'' (PFloat ?s)) ''issues''
         = (if is_list (dict_get d ''issues'') then dict_get d ''issues'' else PList [])"
    by (simp add: ensure_lists_issues)
  moreover have "dict_get (dict_set ?w ''drift_score'' (PFloat ?s)) ''timeline''
         = (if is_list (dict_get d ''timeline'') then dict_get d ''timeline'' else PList [])"
    by (simp add: ensure_lists_timeline)
  moreover have "dict_get (dict_set ?w ''drift_score'' (PFloat ?s)) ''drift_score'' = PFloat ?s"
    by simp
  moreover have "\<forall>k. k \<notin> set [''issues'', ''timeline'', ''drift_score''] \<longrightarrow>
       map_of (dict_set ?w ''drift_score'' (PFloat ?s)) k = map_of d k"
    by (simp add: map_of_dict_set_other ensure_lists_other)
  ultimately show ?thesis by blast
qed

text \<open>
  Claim C4, amended. For every non-empty dictionary returned by an AI provider
  whose \<^verbatim>\<open>drift_score\<close>, if an integer, is within the double range, the
  validation returns the dictionary with a missing or non-list \<^verbatim>\<open>issues\<close>
  or \<^verbatim>\<open>timeline\<close> replaced by the empty list and a missing or non-numeric
  \<^verbatim>\<open>drift_score\<close> replaced by 0; a numeric score above 1 is divided by 100 and
  capped at 1, and the result is clamped into \<open>[0, 1]\<close>. All other entries are
  unchanged. (The empty dictionary is not validated: the result is
  \<^verbatim>\<open>None\<close>.)
\<close>

theorem ai_result_validation:
  assumes "d \<noteq> []" and "in_double_range (dict_get d ''drift_score'')"
  shows "\<exists>r. validate_reply (PDict d) = Inr (Some r)
     \<and> (has_analyze_infrastructure client
          \<and> analyze_infrastructure client content file_type = Inr (PDict d) \<longrightarrow>
        analyze_with_ai env_client content file_type (Some client) = Some r)
     \<and> dict_get r ''issues''
         = (if is_list (dict_get d ''issues'') then dict_get d ''issues'' else PList [])
     \<and> dict_get r ''timeline''
         = (if is_list (dict_get d ''timeline'') then dict_get d ''timeline'' else PList [])
     \<and> dict_get r ''drift_score''
         = PFloat (if is_number (dict_get d ''drift_score'')
                   then scaled_and_clamped (number_real (dict_get d ''drift_score'')) else 0)
     \<and> (\<forall>k. k \<notin> set [''issues'', ''timeline'', ''drift_score''] \<longrightarrow> map_of r k = map_of d k)
     \<and> (\<forall>s. scaled_and_clamped s = max 0 (min 1 (if s > 1 then min (s / 100) 1 else s))
            \<and> 0 \<le> scaled_and_clamped s \<and> scaled_and_clamped s \<le> 1)"
proof -
  obtain r where r: "validate_ai_result d = Inr r"
     and p: "dict_get r ''issues''
         = (if is_list (dict_get d ''issues'') then dict_get d ''issues'' else PList [])"
     "dict_get r ''timeline''
         = (if is_list (dict_get d ''timeline'') then dict_get d ''timeline'' else PList [])"
     "dict_get r ''drift_score''
         = PFloat (if is_number (dict_get d ''drift_score'')
                   then scaled_and_clamped (number_real (dict_get d ''drift_score'')) else 0)"
     "\<forall>k. k \<notin> set [''issues'', ''timeline'', ''drift_score''] \<longrightarrow> map_of r k = map_of d k"
    using validate_ai_result_ok [OF assms(2)] by blast
  have v: "validate_reply (PDict d) = Inr (Some r)"
    using assms(1) r by (simp add: validate_reply_def)
  have a: "has_analyze_infrastructure client
          \<and> analyze_infrastructure client content file_type = Inr (PDict d) \<longrightarrow>
        analyze_with_ai env_client content file_type (Some client) = Some r"
    using v by (simp add: analyze_with_ai_def)
  have s: "\<forall>s. scaled_and_clamped s = max 0 (min 1 (if s > 1 then min (s / 100) 1 else s))
            \<and> 0 \<le> scaled_and_clamped s \<and> scaled_and_clamped s \<le> 1"
    using scaled_and_clamped_range by (simp add: scaled_and_clamped_def)
  show ?thesis using v a p s by blast
qed

lemmas eval_ai_defs =
  validate_reply_def validate_ai_result_def ensure_lists_def is_list_def is_number_def
  normalize_score_def number_real_def number_value_def float_of_int_def analyze_with_ai_def
  reply_client_def failing_client_def Let_def

theorem ai_result_validation_witness:
  "[(''drift_score'', PInt 85), (''issues'', PStr ''none'')] \<noteq> []
   \<and> in_double_range (dict_get [(''drift_score'', PInt 85), (''issues'', PStr ''none'')] ''drift_score'')
   \<and> analyze_with_ai None ''resource {}'' ''terraform''
        (Some (reply_client (PDict [(''drift_score'', PInt 85), (''issues'', PStr ''none'')])))
       = Some [(''drift_score'', PFloat 0.85), (''issues'', PList []), (''timeline'', PList [])]"
  using ai_result_validation [where d = "[(''drift_score'', PInt 85), (''issues'', PStr ''none'')]"
      and client = "reply_client (PDict [(''drift_score'', PInt 85), (''issues'', PStr ''none'')])"
      and content = "''resource {}''" and file_type = "''terraform''" and env_client = None]
  by (simp add: eval_ai_defs eval_defs in_double_range_def)

theorem ai_result_validation_counterexample:
  "validate_reply (PDict []) = Inr None
   \<and> validate_reply (PDict [(''issues'', PList []), (''drift_score'', PInt (- (2 ^ 1024)))])
       = Inl OverflowError"
  by (simp add: validate_reply_def validate_ai_result_def ensure_lists_def eval_defs is_list_def
      is_number_def normalize_score_def number_real_def number_value_def float_of_int_def Let_def)

section \<open>Properties of the orchestrator\<close>

lemma replicate_numeral: "replicate (numeral k) x = x # replicate (pred_numeral k) x"
  by (simp add: numeral_eq_Suc)

lemmas eval_orchestrator_defs =
  analyze_content_def ai_or_fallback_def try_ai_def build_response_def rule_engine_fallback_def
  run_rule_engine_def format_rule_engine_issues_def format_rule_engine_issue_def enumerate1_def
  pad3_def generate_timeline_skeleton_def sorted_by_severity_def severity_key_def table_get_def
  severity_order_def days_per_severity_def map_severity_to_timeline_def format_value_def
  add_oumi_scores_def score_issue_def severity_scores_def calculate_drift_score_def
  issue_weight_def curve_def make_timeline_event_def make_issue_def validate_str_def
  validate_literal_def validate_day_def validate_oumi_score_def normalize_severity_val_def
  normalize_timeline_severity_val_def normalize_severity_def normalize_timeline_severity_def
  py_float_def py_iter_def sample_collaborators_def table_scorer_def replicate_numeral

text \<open>
  Claim C1. \<^verbatim>\<open>analyze_content\<close> is to return a complete response for every
  well-formed request and never to raise. The scoring stage and the construction
  of the response models run after the \<^verbatim>\<open>try\<close> statement, and what they
  raise leaves the function: here the provider returns a dictionary with one
  issue and one timeline event whose severity is \<^verbatim>\<open>null\<close>, and
  \<^verbatim>\<open>_normalize_timeline_severity\<close> raises on it, whatever the conversions of
  pydantic are.
\<close>

theorem analyze_content_raises:
  "analyze_content
     (sample_collaborators
        (''gemini'', Some ''gemini-1.5-flash'',
         Some (reply_client (PDict
           [(''drift_score'', PInt 40),
            (''issues'', PList [PDict [(''title'', PStr ''Open ingress''),
                                       (''severity'', PStr ''high'')]]),
            (''timeline'', PList [PDict [(''day'', PInt 3), (''event'', PStr ''Drift begins''),
                                         (''severity'', PNone)]])])))
        [] conv)
     ''resource {}'' ''terraform'' (Some ''gemini-1.5-flash'')
   = Inl AttributeError"
  by (simp add: eval_orchestrator_defs eval_ai_defs eval_defs)

text \<open>
  Claim C9. The scoring stage is to return every issue with its score, the
  table's value standing in when the scorer raises for one issue. When the
  severity of that issue is not a string the \<^verbatim>\<open>except\<close> branch itself raises
  on \<^verbatim>\<open>.lower()\<close>, and the whole batch is lost: here the second issue has the
  severity \<^verbatim>\<open>null\<close>, on which the table scorer raises.
\<close>

theorem scoring_aborts:
  "add_oumi_scores table_scorer
     [PDict [(''title'', PStr ''Open ingress''), (''severity'', PStr ''high'')],
      PDict [(''title'', PStr ''Untagged volume''), (''severity'', PNone)]]
   = Inl AttributeError"
  by (simp add: eval_orchestrator_defs eval_defs)

text \<open>
  Claim C2. When the AI path yields no issue the response is to name the
  provider \<^verbatim>\<open>rule-engine\<close> with no model. In the \<^verbatim>\<open>else\<close> branch the names
  are replaced only when the selected provider name is empty or already
  \<^verbatim>\<open>rule-engine\<close>, which changes nothing: here a selected provider returns its
  empty result, and another one raises (which \<^verbatim>\<open>_analyze_with_ai\<close> catches),
  and both responses, built from the rule engine alone, keep the name and the
  model of that provider.
\<close>

theorem fallback_keeps_provider:
  "analyze_content
     (sample_collaborators
        (''gemini'', Some ''gemini-1.5-flash'',
         Some (reply_client (PDict
           [(''drift_score'', PFloat 0), (''issues'', PList []), (''timeline'', PList [])])))
        [] conv)
     ''resource {}'' ''terraform'' (Some ''gemini-1.5-flash'')
   = Inr \<lparr>resp_drift_score = 0,
          resp_timeline =
            [\<lparr>ev_day = 0,
              ev_event = ''Infrastructure deployment completed successfully with no issues detected.'',
              ev_severity = ''info''\<rparr>],
          resp_issues = [],
          resp_provider = Some ''gemini'',
          resp_model = Some ''gemini-1.5-flash''\<rparr>
   \<and> analyze_content
     (sample_collaborators (''ollama'', Some ''llama3:latest'', Some failing_client) [] conv)
     ''resource {}'' ''terraform'' (Some ''llama3:latest'')
   = Inr \<lparr>resp_drift_score = 0,
          resp_timeline =
            [\<lparr>ev_day = 0,
              ev_event = ''Infrastructure deployment completed successfully with no issues detected.'',
              ev_severity = ''info''\<rparr>],
          resp_issues = [],
          resp_provider = Some ''ollama'',
          resp_model = Some ''llama3:latest''\<rparr>"
  by (simp add: eval_orchestrator_defs eval_ai_defs eval_defs)

text \<open>
  Claim C3. When an AI provider returns a result with at least one issue the
  response is to be built from that result and to name that provider. Here the
  selection has returned \<^verbatim>\<open>rule-engine\<close> with no client (as it does when the
  requested model's provider has no credential), \<^verbatim>\<open>_analyze_with_ai\<close> takes
  the client of the environment instead, and the issue, the timeline and the
  score of that client's result come back under the provider name
  \<^verbatim>\<open>rule-engine\<close> with no model.
\<close>

theorem ai_issues_mislabelled:
  "analyze_content
     ((sample_collaborators (''rule-engine'', None, None) [] conv)
        \<lparr>get_ai_client := Some (reply_client (PDict
           [(''drift_score'', PFloat 0.4),
            (''issues'', PList [PDict [(''title'', PStr ''Open ingress''),
                                       (''severity'', PStr ''high'')]]),
            (''timeline'', PList [PDict [(''day'', PInt 3), (''event'', PStr ''Drift begins''),
                                         (''severity'', PStr ''warning'')]])]))\<rparr>)
     ''resource {}'' ''terraform'' (Some ''gemini-pro'')
   = Inr \<lparr>resp_drift_score = 0.4,
          resp_timeline = [\<lparr>ev_day = 3, ev_event = ''Drift begins'', ev_severity = ''medium''\<rparr>],
          resp_issues =
            [\<lparr>issue_id = ''issue-001'', issue_title = ''Open ingress'',
              issue_description = [], issue_severity = ''high'',
              issue_resource = ''unknown'',
              issue_fix_suggestion = ''Review and fix the configuration issue.'',
              issue_oumi_score = Some 0.75\<rparr>],
          resp_provider = Some ''rule-engine'',
          resp_model = None\<rparr>"
  by (simp add: eval_orchestrator_defs eval_ai_defs eval_defs)

end
